theory Spec2Isabelle
  imports Complex_Main "HOL-Library.Char_ord" "HOL-Library.List_Lexorder"
begin

section \<open>Numbers\<close>

text \<open>
  The engine computes on pandas/numpy \<open>float64\<close> values. They are idealised here as
  real numbers, with \<open>None\<close> standing for \<open>NaN\<close> (the only non-number the engine
  itself produces: \<open>replace(0, np.nan)\<close>, the mean of an empty series, the standard
  deviation of fewer than two values). Binary rounding error and infinities are outside
  the model.
\<close>

type_synonym fl = "real option"

text \<open>Comparisons with \<open>NaN\<close> are false.\<close>

definition fl_gt :: "fl \<Rightarrow> fl \<Rightarrow> bool" where
  "fl_gt a b = (case (a, b) of (Some x, Some y) \<Rightarrow> x > y | _ \<Rightarrow> False)"

definition fl_lt :: "fl \<Rightarrow> fl \<Rightarrow> bool" where
  "fl_lt a b = (case (a, b) of (Some x, Some y) \<Rightarrow> x < y | _ \<Rightarrow> False)"

text \<open>Arithmetic propagates \<open>NaN\<close>.\<close>

definition fl_add :: "fl \<Rightarrow> fl \<Rightarrow> fl" where
  "fl_add a b = (case (a, b) of (Some x, Some y) \<Rightarrow> Some (x + y) | _ \<Rightarrow> None)"

definition fl_sub :: "fl \<Rightarrow> fl \<Rightarrow> fl" where
  "fl_sub a b = (case (a, b) of (Some x, Some y) \<Rightarrow> Some (x - y) | _ \<Rightarrow> None)"

definition fl_mul :: "fl \<Rightarrow> fl \<Rightarrow> fl" where
  "fl_mul a b = (case (a, b) of (Some x, Some y) \<Rightarrow> Some (x * y) | _ \<Rightarrow> None)"

text \<open>
  Division. Every call site of the engine passes a denominator that is \<open>NaN\<close> or
  non-zero (\<open>replace(0, np.nan)\<close>, \<open>max(_, 1)\<close>, or a guard \<open>total > 0\<close>), so the
  quotient by zero is never asked for.
\<close>

definition fl_div :: "fl \<Rightarrow> fl \<Rightarrow> fl" where
  "fl_div a b = (case (a, b) of (Some x, Some y) \<Rightarrow> Some (x / y) | _ \<Rightarrow> None)"

text \<open>\<open>round(x, 2)\<close>: scale by 100, round to the nearest integer with ties to even,
  scale back.\<close>

definition rint :: "real \<Rightarrow> int" where
  "rint x = (let f = \<lfloor>x\<rfloor>; d = x - of_int f in
     if d < 1 / 2 then f
     else if d > 1 / 2 then f + 1
     else if even f then f else f + 1)"

definition round2 :: "real \<Rightarrow> real" where
  "round2 x = of_int (rint (x * 100)) / 100"

definition fl_round2 :: "fl \<Rightarrow> fl" where
  "fl_round2 v = map_option round2 v"

text \<open>\<open>int(x)\<close> truncates towards zero.\<close>

definition py_int :: "real \<Rightarrow> int" where
  "py_int x = (if x \<ge> 0 then \<lfloor>x\<rfloor> else \<lceil>x\<rceil>)"

datatype error = KeyError string | ValueError string

section \<open>Data frames\<close>

text \<open>
  A \<open>DataFrame\<close> is its list of column names and its rows. A row gives a value for
  every name; only the names in \<open>columns\<close> are ever read. Text columns (\<open>source\<close>,
  \<open>source_medium\<close>, \<open>event_name\<close>, \<open>date\<close>) are read through \<open>sval\<close>, numeric
  columns through \<open>nval\<close>.
\<close>

record row =
  sval :: "string \<Rightarrow> string"
  nval :: "string \<Rightarrow> fl"

record frame =
  columns :: "string list"
  rows :: "row list"

definition has_col :: "frame \<Rightarrow> string \<Rightarrow> bool" where
  "has_col df c = (c \<in> set (columns df))"

definition col_values :: "frame \<Rightarrow> string \<Rightarrow> fl list" where
  "col_values df c = map (\<lambda>r. nval r c) (rows df)"

text \<open>\<open>Series.sum\<close>, \<open>Series.mean\<close>, \<open>Series.std\<close> skip \<open>NaN\<close>; the standard
  deviation is pandas' default, with \<open>ddof = 1\<close>.\<close>

definition present :: "fl list \<Rightarrow> real list" where
  "present vs = concat (map (\<lambda>v. case v of Some x \<Rightarrow> [x] | None \<Rightarrow> []) vs)"

definition series_sum :: "fl list \<Rightarrow> real" where
  "series_sum vs = sum_list (present vs)"

definition series_mean :: "fl list \<Rightarrow> fl" where
  "series_mean vs = (let xs = present vs in
     if xs = [] then None else Some (sum_list xs / real (length xs)))"

definition series_std :: "fl list \<Rightarrow> fl" where
  "series_std vs = (let xs = present vs; n = length xs in
     if n < 2 then None
     else let m = sum_list xs / real n in
       Some (sqrt (sum_list (map (\<lambda>x. (x - m)\<^sup>2) xs) / real (n - 1))))"

section \<open>Summary metrics\<close>

definition safe_sum :: "frame \<Rightarrow> string \<Rightarrow> real" where
  "safe_sum df c = (if has_col df c then series_sum (col_values df c) else 0)"

definition safe_mean :: "frame \<Rightarrow> string \<Rightarrow> fl" where
  "safe_mean df c = (if has_col df c then series_mean (col_values df c) else Some 0)"

definition calculate_pages_per_session :: "frame \<Rightarrow> real" where
  "calculate_pages_per_session df =
     (if has_col df ''pageviews'' \<and> has_col df ''sessions'' then
        let total_sessions = series_sum (col_values df ''sessions'') in
        if total_sessions > 0
        then round2 (series_sum (col_values df ''pageviews'') / total_sessions)
        else 0
      else 0)"

definition calculate_conversion_rate :: "frame \<Rightarrow> real" where
  "calculate_conversion_rate df =
     (if has_col df ''conversions'' \<and> has_col df ''sessions'' then
        let total_sessions = series_sum (col_values df ''sessions'') in
        if total_sessions > 0
        then round2 ((series_sum (col_values df ''conversions'') / total_sessions) * 100)
        else 0
      else 0)"

text \<open>\<open>str(self.data['date'].min())\<close> and \<open>max\<close>: the least and greatest date text;
  on a frame without rows pandas gives \<open>nan\<close>.\<close>

definition get_date_range :: "frame \<Rightarrow> string \<times> string" where
  "get_date_range df =
     (if has_col df ''date'' then
        (case map (\<lambda>r. sval r ''date'') (rows df) of
           [] \<Rightarrow> (''nan'', ''nan'')
         | d # ds \<Rightarrow> (fold min ds d, fold max ds d))
      else (''N/A'', ''N/A''))"

text \<open>The summary dictionary: its numeric entries by key, and the date range.\<close>

record summary =
  entries :: "string \<rightharpoonup> fl"
  date_range :: "string \<times> string"

definition compute_summary_metrics :: "frame \<Rightarrow> summary" where
  "compute_summary_metrics df = \<lparr>
     entries = [
       ''total_users'' \<mapsto> Some (safe_sum df ''users''),
       ''total_sessions'' \<mapsto> Some (safe_sum df ''sessions''),
       ''total_pageviews'' \<mapsto> Some (safe_sum df ''pageviews''),
       ''total_conversions'' \<mapsto> Some (safe_sum df ''conversions''),
       ''total_revenue'' \<mapsto> Some (safe_sum df ''revenue''),
       ''avg_bounce_rate'' \<mapsto> safe_mean df ''bounce_rate'',
       ''avg_session_duration'' \<mapsto> safe_mean df ''avg_session_duration'',
       ''pages_per_session'' \<mapsto> Some (calculate_pages_per_session df),
       ''conversion_rate'' \<mapsto> Some (calculate_conversion_rate df)],
     date_range = get_date_range df \<rparr>"

section \<open>Source/medium analysis\<close>

subsection \<open>Grouping\<close>

text \<open>The grouping column: lines 29 to 35 of \<open>analyze_source_medium\<close>; \<open>None\<close> is
  the early return.\<close>

definition select_group_col :: "frame \<Rightarrow> string option" where
  "select_group_col df =
     (if \<not> has_col df ''source_medium'' then
        (if has_col df ''source'' then Some ''source'' else None)
      else Some ''source_medium'')"

definition sum_cols :: "frame \<Rightarrow> string list" where
  "sum_cols df = filter (has_col df)
     [''users'', ''sessions'', ''pageviews'', ''conversions'', ''revenue'']"

definition mean_cols :: "frame \<Rightarrow> string list" where
  "mean_cols df = filter (has_col df) [''bounce_rate'', ''avg_session_duration'']"

text \<open>
  \<open>groupby(group_col).agg(agg_cols).reset_index()\<close>: one row per distinct key, keys in
  ascending order; the summed columns first, then the averaged ones.
\<close>

definition group_row :: "frame \<Rightarrow> string \<Rightarrow> string \<Rightarrow> row" where
  "group_row df gc k = (let rs = filter (\<lambda>r. sval r gc = k) (rows df) in \<lparr>
     sval = (\<lambda>c. if c = gc then k else []),
     nval = (\<lambda>c. if c \<in> set (sum_cols df) then Some (series_sum (map (\<lambda>r. nval r c) rs))
                  else if c \<in> set (mean_cols df) then series_mean (map (\<lambda>r. nval r c) rs)
                  else None) \<rparr>)"

definition groupby_agg :: "frame \<Rightarrow> string \<Rightarrow> frame" where
  "groupby_agg df gc = \<lparr>
     columns = gc # sum_cols df @ mean_cols df,
     rows = map (group_row df gc) (sort (remdups (map (\<lambda>r. sval r gc) (rows df)))) \<rparr>"

text \<open>\<open>grouped[c] = ...\<close>: a new column is appended, an existing one overwritten.\<close>

definition set_column :: "frame \<Rightarrow> string \<Rightarrow> (row \<Rightarrow> fl) \<Rightarrow> frame" where
  "set_column g c f = \<lparr>
     columns = (if c \<in> set (columns g) then columns g else columns g @ [c]),
     rows = map (\<lambda>r. r\<lparr>nval := (nval r)(c := f r)\<rparr>) (rows g) \<rparr>"

definition replace0 :: "fl \<Rightarrow> fl" where
  "replace0 v = (if v = Some 0 then None else v)"

text \<open>The derived metrics: lines 50 to 54.\<close>

definition add_sessions_per_user :: "frame \<Rightarrow> frame" where
  "add_sessions_per_user g =
     (if has_col g ''users'' \<and> has_col g ''sessions''
      then set_column g ''sessions_per_user''
             (\<lambda>r. fl_div (nval r ''sessions'') (replace0 (nval r ''users'')))
      else g)"

definition add_conversion_rate :: "frame \<Rightarrow> frame" where
  "add_conversion_rate g =
     (if has_col g ''conversions'' \<and> has_col g ''sessions''
      then set_column g ''conversion_rate''
             (\<lambda>r. fl_mul (fl_div (nval r ''conversions'') (replace0 (nval r ''sessions'')))
                          (Some 100))
      else g)"

definition derived_metrics :: "frame \<Rightarrow> frame" where
  "derived_metrics g = add_conversion_rate (add_sessions_per_user g)"

text \<open>
  \<open>sort_values(c, ascending=False)\<close>: descending, \<open>NaN\<close> last, \<open>KeyError\<close> on a
  missing column. Rows with equal keys keep their order here.
\<close>

definition key_ge :: "fl \<Rightarrow> fl \<Rightarrow> bool" where
  "key_ge a b = (case (a, b) of
       (Some x, Some y) \<Rightarrow> x \<ge> y
     | (_, None) \<Rightarrow> True
     | (None, Some _) \<Rightarrow> False)"

fun insert_desc :: "string \<Rightarrow> row \<Rightarrow> row list \<Rightarrow> row list" where
  "insert_desc c x [] = [x]"
| "insert_desc c x (y # ys) =
     (if key_ge (nval x c) (nval y c) then x # y # ys else y # insert_desc c x ys)"

definition sort_values_desc :: "frame \<Rightarrow> string \<Rightarrow> error + frame" where
  "sort_values_desc g c =
     (if has_col g c then Inr (g\<lparr>rows := foldr (insert_desc c) (rows g) []\<rparr>)
      else Inl (KeyError c))"

subsection \<open>Classification\<close>

text \<open>\<open>row.get('source_medium', row.get('source', 'Unknown'))\<close>, for a row of a frame
  with the given columns.\<close>

definition channel_of :: "string list \<Rightarrow> row \<Rightarrow> string" where
  "channel_of cols r =
     (if ''source_medium'' \<in> set cols then sval r ''source_medium''
      else if ''source'' \<in> set cols then sval r ''source''
      else ''Unknown'')"

definition weights :: "(string \<times> real) list" where
  "weights = [(''conversion_rate'', 0.4), (''sessions_per_user'', 0.3), (''bounce_rate'', - 0.3)]"

text \<open>One turn of the loop over \<open>weights.items()\<close>.\<close>

definition score_step :: "string list \<Rightarrow> row \<Rightarrow> string \<times> real \<Rightarrow> real \<Rightarrow> real" where
  "score_step cols r mw score = (case mw of (metric, weight) \<Rightarrow>
     (case (if metric \<in> set cols then nval r metric else None) of
        Some v \<Rightarrow> (if weight > 0 then score + v * weight
                   else score + (100 - v) * \<bar>weight\<bar>)
      | None \<Rightarrow> score))"

definition calculate_performance_score :: "string list \<Rightarrow> row \<Rightarrow> real" where
  "calculate_performance_score cols r = round2 (fold (score_step cols r) weights 0)"

record performer =
  perf_channel :: string
  perf_users :: int
  performance_score :: real

text \<open>Results of a loop whose body may raise: the first error ends it.\<close>

fun collect :: "(error + 'a) list \<Rightarrow> error + 'a list" where
  "collect [] = Inr []"
| "collect (x # xs) =
     (case x of Inl e \<Rightarrow> Inl e
      | Inr v \<Rightarrow> (case collect xs of Inl e \<Rightarrow> Inl e | Inr vs \<Rightarrow> Inr (v # vs)))"

text \<open>\<open>int(row.get(c, 0))\<close>; \<open>int\<close> of \<open>NaN\<close> raises \<open>ValueError\<close>.\<close>

definition int_of_cell :: "fl \<Rightarrow> error + int" where
  "int_of_cell v = (case v of
       None \<Rightarrow> Inl (ValueError ''cannot convert float NaN to integer'')
     | Some x \<Rightarrow> Inr (py_int x))"

definition top_entry :: "string list \<Rightarrow> row \<Rightarrow> error + performer" where
  "top_entry cols r =
     (case int_of_cell (if ''users'' \<in> set cols then nval r ''users'' else Some 0) of
        Inl e \<Rightarrow> Inl e
      | Inr u \<Rightarrow> Inr \<lparr> perf_channel = channel_of cols r, perf_users = u,
                       performance_score = calculate_performance_score cols r \<rparr>)"

definition identify_top_performers :: "frame \<Rightarrow> error + performer list" where
  "identify_top_performers grouped =
     collect (map (top_entry (columns grouped)) (take 5 (rows grouped)))"

record underperformer =
  under_channel :: string
  issue :: string
  under_bounce_rate :: fl

definition identify_underperformers :: "frame \<Rightarrow> underperformer list" where
  "identify_underperformers grouped =
     (if has_col grouped ''bounce_rate'' then
        let vs = col_values grouped ''bounce_rate'';
            threshold = fl_add (series_mean vs) (series_std vs);
            high_bounce = filter (\<lambda>r. fl_gt (nval r ''bounce_rate'') threshold) (rows grouped)
        in take 5 (map (\<lambda>r. \<lparr> under_channel = channel_of (columns grouped) r,
                                 issue = ''High bounce rate'',
                                 under_bounce_rate = fl_round2 (nval r ''bounce_rate'') \<rparr>)
                       high_bounce)
      else [])"

record share =
  dist_channel :: string
  dist_value :: int
  percentage :: real

definition dist_entry :: "string list \<Rightarrow> string \<Rightarrow> real \<Rightarrow> row \<Rightarrow> error + share" where
  "dist_entry cols metric tot r =
     (case int_of_cell (nval r metric) of
        Inl e \<Rightarrow> Inl e
      | Inr v \<Rightarrow> Inr \<lparr> dist_channel = channel_of cols r, dist_value = v,
                       percentage = (if tot > 0
                                     then round2 ((the (nval r metric) / tot) * 100)
                                     else 0) \<rparr>)"

definition calculate_distribution :: "frame \<Rightarrow> string \<Rightarrow> error + share list" where
  "calculate_distribution grouped metric =
     (if \<not> has_col grouped metric then Inr []
      else let tot = series_sum (col_values grouped metric) in
        collect (map (dist_entry (columns grouped) metric tot) (rows grouped)))"

text \<open>
  \<open>idxmin\<close>/\<open>idxmax\<close> followed by \<open>.loc\<close>: the first row holding the least (greatest)
  value that is not \<open>NaN\<close>. On a column without any number (no rows, or all \<open>NaN\<close>)
  the lookup raises.
\<close>

fun arg_best :: "(real \<Rightarrow> real \<Rightarrow> bool) \<Rightarrow> string \<Rightarrow> row list \<Rightarrow> row option" where
  "arg_best better c [] = None"
| "arg_best better c (r # rs) =
     (case nval r c of
        None \<Rightarrow> arg_best better c rs
      | Some v \<Rightarrow> (case arg_best better c rs of
                     None \<Rightarrow> Some r
                   | Some b \<Rightarrow> (case nval b c of
                                  Some w \<Rightarrow> if better w v then Some b else Some r
                                | None \<Rightarrow> Some r)))"

definition best_channel :: "frame \<Rightarrow> string \<Rightarrow> (real \<Rightarrow> real \<Rightarrow> bool) \<Rightarrow> error + string" where
  "best_channel grouped c better =
     (if has_col grouped ''source_medium'' then
        (case arg_best better c (rows grouped) of
           None \<Rightarrow> Inl (ValueError ''attempt to get argmin/argmax of an empty sequence'')
         | Some r \<Rightarrow> Inr (sval r ''source_medium''))
      else Inr ''N/A'')"

record quality =
  q_avg_bounce_rate :: "fl option"
  best_bounce_rate_channel :: "string option"
  q_avg_conversion_rate :: "fl option"
  best_conversion_channel :: "string option"

definition analyze_traffic_quality :: "frame \<Rightarrow> error + quality" where
  "analyze_traffic_quality grouped =
     (case (if has_col grouped ''bounce_rate''
            then (case best_channel grouped ''bounce_rate'' (<) of
                    Inl e \<Rightarrow> Inl e
                  | Inr ch \<Rightarrow> Inr (Some (fl_round2 (series_mean (col_values grouped ''bounce_rate''))),
                                   Some ch))
            else Inr (None, None)) of
        Inl e \<Rightarrow> Inl e
      | Inr (ab, bb) \<Rightarrow>
        (case (if has_col grouped ''conversion_rate''
               then (case best_channel grouped ''conversion_rate'' (>) of
                       Inl e \<Rightarrow> Inl e
                     | Inr ch \<Rightarrow> Inr (Some (fl_round2 (series_mean (col_values grouped ''conversion_rate''))),
                                      Some ch))
               else Inr (None, None)) of
           Inl e \<Rightarrow> Inl e
         | Inr (ac, bc) \<Rightarrow> Inr \<lparr> q_avg_bounce_rate = ab, best_bounce_rate_channel = bb,
                                  q_avg_conversion_rate = ac, best_conversion_channel = bc \<rparr>))"

subsection \<open>The analysis\<close>

record analysis =
  by_channel :: frame
  top_performers :: "performer list"
  underperformers :: "underperformer list"
  channel_distribution :: "share list"
  quality_analysis :: quality

datatype source_analysis = NoSourceData string | ChannelAnalysis analysis

text \<open>
  The entries of the result are computed in the order they are written, and the first
  one that raises ends the call. (When no numeric column is present at all, pandas'
  \<open>agg\<close> itself raises on the empty specification; the model then reports the
  \<open>KeyError\<close> of the sort, an error either way.)
\<close>

definition analyze_source_medium :: "frame \<Rightarrow> error + source_analysis" where
  "analyze_source_medium df =
     (case select_group_col df of
        None \<Rightarrow> Inr (NoSourceData ''No source/medium data available'')
      | Some group_col \<Rightarrow>
        (case sort_values_desc (derived_metrics (groupby_agg df group_col)) ''users'' of
           Inl e \<Rightarrow> Inl e
         | Inr grouped \<Rightarrow>
           (case identify_top_performers grouped of
              Inl e \<Rightarrow> Inl e
            | Inr tp \<Rightarrow>
              (case calculate_distribution grouped ''users'' of
                 Inl e \<Rightarrow> Inl e
               | Inr cd \<Rightarrow>
                 (case analyze_traffic_quality grouped of
                    Inl e \<Rightarrow> Inl e
                  | Inr q \<Rightarrow> Inr (ChannelAnalysis \<lparr>
                      by_channel = grouped,
                      top_performers = tp,
                      underperformers = identify_underperformers grouped,
                      channel_distribution = cd,
                      quality_analysis = q \<rparr>))))))"

section \<open>User behaviour\<close>

definition compute_engagement_metrics :: "frame \<Rightarrow> (string \<rightharpoonup> fl)" where
  "compute_engagement_metrics df = [
     ''avg_pages_per_session'' \<mapsto> Some (calculate_pages_per_session df),
     ''avg_session_duration'' \<mapsto> safe_mean df ''avg_session_duration'',
     ''engagement_rate'' \<mapsto> fl_sub (Some 100) (safe_mean df ''bounce_rate'')]"

definition analyze_sessions :: "frame \<Rightarrow> (string \<rightharpoonup> fl)" where
  "analyze_sessions df = [
     ''total_sessions'' \<mapsto> Some (safe_sum df ''sessions''),
     ''sessions_per_user'' \<mapsto>
        Some (round2 (safe_sum df ''sessions'' / max (safe_sum df ''users'') 1))]"

definition compute_retention_indicators :: "frame \<Rightarrow> (string \<rightharpoonup> fl)" where
  "compute_retention_indicators df = [
     ''returning_user_indicator'' \<mapsto>
        fl_round2 (fl_div (safe_mean df ''sessions'') (Some (max (safe_sum df ''users'') 1)))]"

definition analyze_user_journey :: "frame \<Rightarrow> (string \<rightharpoonup> fl)" where
  "analyze_user_journey df = [
     ''avg_touchpoints'' \<mapsto> Some (calculate_pages_per_session df),
     ''conversion_funnel_rate'' \<mapsto> Some (calculate_conversion_rate df)]"

definition analyze_user_behavior :: "frame \<Rightarrow> (string \<rightharpoonup> (string \<rightharpoonup> fl))" where
  "analyze_user_behavior df = [
     ''engagement_metrics'' \<mapsto> compute_engagement_metrics df,
     ''session_analysis'' \<mapsto> analyze_sessions df,
     ''retention_indicators'' \<mapsto> compute_retention_indicators df,
     ''user_journey'' \<mapsto> analyze_user_journey df]"

section \<open>Events\<close>

text \<open>\<open>Series.unique()\<close> keeps the first occurrence of each value, in order.\<close>

definition unique :: "'a list \<Rightarrow> 'a list" where
  "unique xs = rev (remdups (rev xs))"

text \<open>\<open>str.lower()\<close> on ASCII letters, and the substring test \<open>kw in s\<close>.\<close>

definition lower_char :: "char \<Rightarrow> char" where
  "lower_char c = (if CHR ''A'' \<le> c \<and> c \<le> CHR ''Z''
                   then char_of (of_char c + (32::nat)) else c)"

definition lower :: "string \<Rightarrow> string" where
  "lower s = map lower_char s"

fun contains :: "string \<Rightarrow> string \<Rightarrow> bool" where
  "contains kw [] = (kw = [])"
| "contains kw (c # cs) = (take (length kw) (c # cs) = kw \<or> contains kw cs)"

record event_summary =
  total_events :: int
  unique_event_types :: nat

definition summarize_events :: "frame \<Rightarrow> event_summary option" where
  "summarize_events df =
     (if \<not> has_col df ''event_name'' then None
      else Some \<lparr> total_events = py_int (safe_sum df ''event_count''),
                  unique_event_types = length (remdups (map (\<lambda>r. sval r ''event_name'') (rows df))) \<rparr>)"

text \<open>
  \<open>self.data.groupby('event_name')['event_count']\<close> selects the column without a
  check: a frame without \<open>event_count\<close> raises \<open>KeyError\<close> there.
\<close>

fun insert_count_desc :: "string \<times> real \<Rightarrow> (string \<times> real) list \<Rightarrow> (string \<times> real) list" where
  "insert_count_desc x [] = [x]"
| "insert_count_desc x (y # ys) =
     (if snd x \<ge> snd y then x # y # ys else y # insert_count_desc x ys)"

definition get_top_events :: "frame \<Rightarrow> nat \<Rightarrow> error + (string \<times> int) list" where
  "get_top_events df n =
     (if \<not> has_col df ''event_name'' then Inr []
      else if \<not> has_col df ''event_count'' then Inl (KeyError ''event_count'')
      else let keys = sort (remdups (map (\<lambda>r. sval r ''event_name'') (rows df)));
               event_counts = map (\<lambda>k. (k, series_sum (map (\<lambda>r. nval r ''event_count'')
                                   (filter (\<lambda>r. sval r ''event_name'' = k) (rows df))))) keys
           in Inr (map (\<lambda>(name, count). (name, py_int count))
                       (take n (foldr insert_count_desc event_counts []))))"

definition conversion_keywords :: "string list" where
  "conversion_keywords =
     [''purchase'', ''signup'', ''submit'', ''complete'', ''conversion'', ''lead'']"

definition identify_conversion_events :: "frame \<Rightarrow> string list" where
  "identify_conversion_events df =
     (if \<not> has_col df ''event_name'' then []
      else filter (\<lambda>e. list_ex (\<lambda>kw. contains kw (lower e)) conversion_keywords)
                  (unique (map (\<lambda>r. sval r ''event_name'') (rows df))))"

definition engagement_categories :: "(string \<times> string list) list" where
  "engagement_categories = [
     (''navigation'', [''page_view'', ''scroll'', ''click'']),
     (''interaction'', [''video_play'', ''file_download'', ''form_start'']),
     (''conversion'', [''purchase'', ''sign_up'', ''generate_lead''])]"

text \<open>The body of the outer loop: the event goes to the first category one of whose
  keywords it contains, or to none.\<close>

definition categorize_step :: "string \<Rightarrow> (string \<Rightarrow> string list) \<Rightarrow> (string \<Rightarrow> string list)" where
  "categorize_step event categorized =
     (case find (\<lambda>(category, keywords). list_ex (\<lambda>kw. contains kw (lower event)) keywords)
                engagement_categories of
        Some (category, keywords) \<Rightarrow> categorized(category := categorized category @ [event])
      | None \<Rightarrow> categorized)"

definition categorize_engagement_events :: "frame \<Rightarrow> (string \<times> string list) list" where
  "categorize_engagement_events df =
     (if \<not> has_col df ''event_name'' then []
      else let events = unique (map (\<lambda>r. sval r ''event_name'') (rows df));
               categorized = fold categorize_step events (\<lambda>cat. [])
           in map (\<lambda>(cat, keywords). (cat, categorized cat)) engagement_categories)"

record events_report =
  ev_summary :: "event_summary option"
  top_events :: "(string \<times> int) list"
  conversion_events :: "string list"
  engagement_events :: "(string \<times> string list) list"

datatype event_analysis = NoEventData string | EventAnalysis events_report

definition analyze_events :: "frame \<Rightarrow> error + event_analysis" where
  "analyze_events df =
     (if \<not> has_col df ''event_name'' then Inr (NoEventData ''No event data available in CSV'')
      else (case get_top_events df 10 of
              Inl e \<Rightarrow> Inl e
            | Inr te \<Rightarrow> Inr (EventAnalysis \<lparr>
                ev_summary = summarize_events df,
                top_events = te,
                conversion_events = identify_conversion_events df,
                engagement_events = categorize_engagement_events df \<rparr>)))"

section \<open>The insight and recommendation rules\<close>

record dashboard_metrics =
  m_summary :: summary
  source_medium_analysis :: source_analysis
  user_behavior :: "string \<rightharpoonup> (string \<rightharpoonup> fl)"
  m_event_analysis :: event_analysis

text \<open>\<open>d.get(k, 0)\<close> on a dictionary of numbers.\<close>

definition get0 :: "(string \<rightharpoonup> fl) \<Rightarrow> string \<Rightarrow> fl" where
  "get0 d k = (case d k of Some v \<Rightarrow> v | None \<Rightarrow> Some 0)"

text \<open>\<open>source_analysis.get('top_performers')\<close> and \<open>.get('underperformers')\<close>: the
  dictionary with the single key \<open>error\<close> has neither.\<close>

definition get_top_performers :: "source_analysis \<Rightarrow> performer list" where
  "get_top_performers sa = (case sa of NoSourceData _ \<Rightarrow> [] | ChannelAnalysis a \<Rightarrow> top_performers a)"

definition get_underperformers :: "source_analysis \<Rightarrow> underperformer list" where
  "get_underperformers sa = (case sa of NoSourceData _ \<Rightarrow> [] | ChannelAnalysis a \<Rightarrow> underperformers a)"

record insight =
  category :: string
  severity :: string
  title :: string
  description :: string

text \<open>
  The texts embed formatted numbers; Python's formatter is taken as two parameters,
  \<open>fmt2\<close> for \<open>{:.2f}\<close> and \<open>fmtc\<close> for \<open>{:,}\<close>. The field \<open>severity\<close> is the key
  \<open>type\<close> of the source.
\<close>

definition compile_insights ::
  "(fl \<Rightarrow> string) \<Rightarrow> (int \<Rightarrow> string) \<Rightarrow> dashboard_metrics \<Rightarrow> insight list" where
  "compile_insights fmt2 fmtc metrics =
     (let source_analysis = source_medium_analysis metrics;
          summary = entries (m_summary metrics);
          behavior = user_behavior metrics
      in
      (case get_top_performers source_analysis of
         [] \<Rightarrow> []
       | top1 # _ \<Rightarrow> [\<lparr> category = ''Traffic'', severity = ''positive'',
                        title = ''Top Traffic Source Identified'',
                        description = perf_channel top1 @ '' drives the most users to your site with ''
                                      @ fmtc (perf_users top1) @ '' visitors.'' \<rparr>])
      @
      (if fl_gt (get0 summary ''conversion_rate'') (Some 3) then
         [\<lparr> category = ''Conversion'', severity = ''positive'',
            title = ''Strong Conversion Rate'',
            description = ''Your '' @ fmt2 (get0 summary ''conversion_rate'')
                          @ ''% conversion rate is above the industry average of 2-3%.'' \<rparr>]
       else if fl_gt (get0 summary ''conversion_rate'') (Some 0) then
         [\<lparr> category = ''Conversion'', severity = ''warning'',
            title = ''Conversion Rate Optimization Needed'',
            description = ''Your '' @ fmt2 (get0 summary ''conversion_rate'')
                          @ ''% conversion rate has room for improvement. Consider CRO testing.'' \<rparr>]
       else [])
      @
      (if fl_lt (get0 (case behavior ''engagement_metrics'' of Some d \<Rightarrow> d | None \<Rightarrow> Map.empty)
                      ''engagement_rate'') (Some 50) then
         [\<lparr> category = ''Engagement'', severity = ''critical'',
            title = ''High Bounce Rate Alert'',
            description = ''More than half of visitors leave without engaging. Review landing page relevance and load times.'' \<rparr>]
       else []))"

record recommendation =
  priority :: string
  rec_category :: string
  rec_title :: string
  rec_description :: string
  expected_impact :: string

definition compile_recommendations :: "dashboard_metrics \<Rightarrow> recommendation list" where
  "compile_recommendations metrics =
     (let summary = entries (m_summary metrics);
          source_analysis = source_medium_analysis metrics
      in
      (case get_top_performers source_analysis of
         [] \<Rightarrow> []
       | top1 # _ \<Rightarrow> [\<lparr> priority = ''High'', rec_category = ''Traffic Acquisition'',
                        rec_title = ''Increase investment in '' @ perf_channel top1,
                        rec_description = ''This channel shows the best performance. Consider increasing budget or content creation for this source.'',
                        expected_impact = ''Potential 15-25% increase in quality traffic'' \<rparr>])
      @
      (if fl_lt (get0 summary ''conversion_rate'') (Some 3) then
         [\<lparr> priority = ''High'', rec_category = ''Conversion Optimization'',
            rec_title = ''Implement Conversion Rate Optimization'',
            rec_description = ''A/B test landing pages, simplify conversion forms, and add trust signals near CTAs.'',
            expected_impact = ''Potential 0.5-1% improvement in conversion rate'' \<rparr>]
       else [])
      @
      (if fl_gt (get0 summary ''avg_bounce_rate'') (Some 60) then
         [\<lparr> priority = ''Medium'', rec_category = ''User Experience'',
            rec_title = ''Reduce Bounce Rate'',
            rec_description = ''Improve page load speed, ensure mobile optimization, and enhance above-the-fold content.'',
            expected_impact = ''Potential 10-15% reduction in bounce rate'' \<rparr>]
       else [])
      @
      (if get_underperformers source_analysis \<noteq> [] then
         [\<lparr> priority = ''Medium'', rec_category = ''Channel Optimization'',
            rec_title = ''Review Underperforming Channels'',
            rec_description = ''Audit landing pages and targeting for channels with high bounce rates. Consider pausing or reallocating budget.'',
            expected_impact = ''Better ROI on marketing spend'' \<rparr>]
       else []))"

text \<open>Step 3 of \<open>GADashboardAgent.process\<close>: the metrics object handed to the rules.\<close>

definition process_metrics :: "frame \<Rightarrow> error + dashboard_metrics" where
  "process_metrics df =
     (case analyze_source_medium df of
        Inl e \<Rightarrow> Inl e
      | Inr sa \<Rightarrow>
        (case analyze_events df of
           Inl e \<Rightarrow> Inl e
         | Inr ea \<Rightarrow> Inr \<lparr> m_summary = compute_summary_metrics df,
                            source_medium_analysis = sa,
                            user_behavior = analyze_user_behavior df,
                            m_event_analysis = ea \<rparr>))"

section \<open>Example datasets\<close>

definition mk_row :: "(string \<times> string) list \<Rightarrow> (string \<times> real) list \<Rightarrow> row" where
  "mk_row ss ns = \<lparr> sval = (\<lambda>c. case map_of ss c of Some s \<Rightarrow> s | None \<Rightarrow> []),
                     nval = map_of ns \<rparr>"

text \<open>The two-row scenario of the specification.\<close>

definition scenario :: frame where
  "scenario = \<lparr>
     columns = [''source_medium'', ''users'', ''sessions'', ''conversions'', ''bounce_rate''],
     rows = [mk_row [(''source_medium'', ''google / organic'')]
                    [(''users'', 100), (''sessions'', 120), (''conversions'', 6), (''bounce_rate'', 40)],
             mk_row [(''source_medium'', ''direct / none'')]
                    [(''users'', 50), (''sessions'', 50), (''conversions'', 0), (''bounce_rate'', 80)]] \<rparr>"

text \<open>A dataset keyed by \<open>source\<close> alone, with a channel that has users but no session.\<close>

definition by_source :: frame where
  "by_source = \<lparr>
     columns = [''source'', ''users'', ''sessions'', ''pageviews'', ''conversions''],
     rows = [mk_row [(''source'', ''newsletter'')]
                    [(''users'', 10), (''sessions'', 0), (''pageviews'', 0), (''conversions'', 0)],
             mk_row [(''source'', ''google'')]
                    [(''users'', 4), (''sessions'', 8), (''pageviews'', 20), (''conversions'', 2)]] \<rparr>"

text \<open>A dataset whose only channel has no session.\<close>

definition no_sessions :: frame where
  "no_sessions = \<lparr>
     columns = [''source'', ''users'', ''sessions'', ''pageviews'', ''conversions''],
     rows = [mk_row [(''source'', ''newsletter'')]
                    [(''users'', 10), (''sessions'', 0), (''pageviews'', 0), (''conversions'', 0)]] \<rparr>"

text \<open>A dataset without any channel column.\<close>

definition totals_only :: frame where
  "totals_only = \<lparr>
     columns = [''users'', ''sessions''],
     rows = [mk_row [] [(''users'', 1), (''sessions'', 2)],
             mk_row [] [(''users'', 1), (''sessions'', 2)]] \<rparr>"

text \<open>A metrics object holding the summary of the scenario and nothing else.\<close>

definition scenario_summary :: dashboard_metrics where
  "scenario_summary = \<lparr>
     m_summary = compute_summary_metrics scenario,
     source_medium_analysis = NoSourceData ''No source/medium data available'',
     user_behavior = Map.empty,
     m_event_analysis = NoEventData ''No event data available in CSV'' \<rparr>"

text \<open>The grouped frame and the metrics object the engine builds for the scenario.\<close>

definition scenario_grouped :: frame where
  "scenario_grouped =
     (case sort_values_desc (derived_metrics (groupby_agg scenario ''source_medium'')) ''users'' of
        Inr g \<Rightarrow> g
      | Inl e \<Rightarrow> \<lparr> columns = [], rows = [] \<rparr>)"

definition scenario_metrics :: dashboard_metrics where
  "scenario_metrics = (case process_metrics scenario of Inr m \<Rightarrow> m | Inl e \<Rightarrow> scenario_summary)"

text \<open>An event export that names its events but does not count them.\<close>

definition events_only :: frame where
  "events_only = \<lparr>
     columns = [''event_name''],
     rows = [mk_row [(''event_name'', ''click'')] [],
             mk_row [(''event_name'', ''purchase'')] []] \<rparr>"

text \<open>A channel export without the \<open>users\<close> column.\<close>

definition sessions_by_source :: frame where
  "sessions_by_source = \<lparr>
     columns = [''source'', ''sessions''],
     rows = [mk_row [(''source'', ''google'')] [(''sessions'', 8)]] \<rparr>"

text \<open>Grouped frames: three channels, and fifteen channels of which six bounce.\<close>

definition channel_row :: "string \<Rightarrow> real \<Rightarrow> real \<Rightarrow> row" where
  "channel_row name u b = mk_row [(''source'', name)] [(''users'', u), (''bounce_rate'', b)]"

definition three_groups :: frame where
  "three_groups = \<lparr> columns = [''source'', ''users'', ''bounce_rate''],
     rows = [channel_row ''a'' 30 0, channel_row ''b'' 20 10, channel_row ''c'' 10 20] \<rparr>"

definition crowded :: frame where
  "crowded = \<lparr> columns = [''source'', ''users'', ''bounce_rate''],
     rows = [channel_row ''c01'' 150 90, channel_row ''c02'' 140 91, channel_row ''c03'' 130 92,
             channel_row ''c04'' 120 93, channel_row ''c05'' 110 94, channel_row ''c06'' 100 95,
             channel_row ''c07'' 90 0, channel_row ''c08'' 80 0, channel_row ''c09'' 70 0,
             channel_row ''c10'' 60 0, channel_row ''c11'' 50 0, channel_row ''c12'' 40 0,
             channel_row ''c13'' 30 0, channel_row ''c14'' 20 0, channel_row ''c15'' 10 0] \<rparr>"

section \<open>The specification's formulas\<close>

text \<open>
  The retention indicator in the words of the specification:
  \<open>total_sessions / max(total_users, 1)\<close>, rounded to 2 decimals.
\<close>

definition spec_returning_user_indicator :: "frame \<Rightarrow> real" where
  "spec_returning_user_indicator df =
     round2 (safe_sum df ''sessions'' / max (safe_sum df ''users'') 1)"

text \<open>
  The underperformers in the words of the specification: the groups whose bounce rate
  exceeds the mean plus the population standard deviation (divisor \<open>n\<close>) of the
  groups' bounce rates, capped to the 5 such groups with the highest bounce rate.
\<close>

definition population_std :: "fl list \<Rightarrow> fl" where
  "population_std vs = (let xs = present vs; n = length xs in
     if n = 0 then None
     else let m = sum_list xs / real n in
       Some (sqrt (sum_list (map (\<lambda>x. (x - m)\<^sup>2) xs) / real n)))"

definition spec_underperformers :: "frame \<Rightarrow> row list" where
  "spec_underperformers grouped =
     (if has_col grouped ''bounce_rate'' then
        let vs = col_values grouped ''bounce_rate'';
            threshold = fl_add (series_mean vs) (population_std vs);
            exceeding = filter (\<lambda>r. fl_gt (nval r ''bounce_rate'') threshold) (rows grouped)
        in take 5 (foldr (insert_desc ''bounce_rate'') exceeding [])
      else [])"

section \<open>Properties\<close>

subsection \<open>Sorting and derived columns keep the groups\<close>

lemma set_insert_desc: "set (insert_desc c x ys) = insert x (set ys)"
  by (induction ys) auto

lemma set_foldr_insert_desc: "set (foldr (insert_desc c) xs []) = set xs"
  by (induction xs) (auto simp: set_insert_desc)

lemma keys_set_column:
  "map (\<lambda>r. sval r gc) (rows (set_column g c f)) = map (\<lambda>r. sval r gc) (rows g)"
  by (simp add: set_column_def comp_def)

lemma keys_derived:
  "map (\<lambda>r. sval r gc) (rows (derived_metrics g)) = map (\<lambda>r. sval r gc) (rows g)"
  by (simp add: derived_metrics_def add_conversion_rate_def add_sessions_per_user_def
      keys_set_column)

lemma keys_groupby:
  "map (\<lambda>r. sval r gc) (rows (groupby_agg df gc)) =
     sort (remdups (map (\<lambda>r. sval r gc) (rows df)))"
  by (simp add: groupby_agg_def group_row_def comp_def Let_def)

lemma hd_columns_set_column:
  "columns g \<noteq> [] \<Longrightarrow>
     hd (columns (set_column g c f)) = hd (columns g) \<and> columns (set_column g c f) \<noteq> []"
  by (simp add: set_column_def)

lemma hd_columns_derived:
  "columns g \<noteq> [] \<Longrightarrow> hd (columns (derived_metrics g)) = hd (columns g)"
  by (simp add: derived_metrics_def add_conversion_rate_def add_sessions_per_user_def
      hd_columns_set_column)

lemma analyze_source_medium_grouped:
  assumes "analyze_source_medium df = Inr (ChannelAnalysis a)" "select_group_col df = Some gc"
  shows "sort_values_desc (derived_metrics (groupby_agg df gc)) ''users'' = Inr (by_channel a)"
  using assms by (auto simp: analyze_source_medium_def split: sum.splits)

lemma sorted_frame:
  assumes "sort_values_desc d c = Inr g"
  shows "g = d\<lparr>rows := foldr (insert_desc c) (rows d) []\<rparr>"
  using assms by (auto simp: sort_values_desc_def split: if_splits)

lemma analyze_source_medium_keys:
  assumes "analyze_source_medium df = Inr (ChannelAnalysis a)" "select_group_col df = Some gc"
  shows "hd (columns (by_channel a)) = gc \<and>
         set (map (\<lambda>r. sval r gc) (rows (by_channel a))) = set (map (\<lambda>r. sval r gc) (rows df))"
proof -
  let ?d = "derived_metrics (groupby_agg df gc)"
  have "sort_values_desc ?d ''users'' = Inr (by_channel a)"
    using assms by (rule analyze_source_medium_grouped)
  then have eq: "by_channel a = ?d\<lparr>rows := foldr (insert_desc ''users'') (rows ?d) []\<rparr>"
    by (rule sorted_frame)
  have "set (rows (by_channel a)) = set (rows ?d)"
    by (subst eq) (simp add: set_foldr_insert_desc)
  then have "set (map (\<lambda>r. sval r gc) (rows (by_channel a))) =
             set (map (\<lambda>r. sval r gc) (rows ?d))"
    by simp
  also have "\<dots> = set (map (\<lambda>r. sval r gc) (rows df))"
    by (simp only: keys_derived keys_groupby set_sort set_remdups)
  finally have k: "set (map (\<lambda>r. sval r gc) (rows (by_channel a))) =
                   set (map (\<lambda>r. sval r gc) (rows df))" .
  have "columns (by_channel a) = columns ?d" by (subst eq) simp
  moreover have "hd (columns ?d) = gc"
    by (subst hd_columns_derived) (simp_all add: groupby_agg_def)
  ultimately show ?thesis using k by simp
qed

lemmas engine_defs =
  analyze_source_medium_def select_group_col_def has_col_def mk_row_def
  groupby_agg_def group_row_def sum_cols_def mean_cols_def derived_metrics_def
  add_conversion_rate_def add_sessions_per_user_def set_column_def sort_values_desc_def
  key_ge_def series_sum_def present_def series_mean_def identify_top_performers_def
  top_entry_def int_of_cell_def py_int_def calculate_distribution_def dist_entry_def
  col_values_def analyze_traffic_quality_def best_channel_def replace0_def fl_div_def
  fl_mul_def Let_def

subsection \<open>The grouping key\<close>

text \<open>
  Claim C6. The source/medium analysis groups by \<open>source_medium\<close> when the dataset has
  that column, otherwise by \<open>source\<close> when it has that one; with neither, it returns
  the marker \<open>No source/medium data available\<close> and raises nothing. Whenever the
  analysis returns channel rows, their first column is the selected key, and the keys
  of the rows are exactly the values the dataset has in that column.
\<close>

theorem group_key_selection:
  "(has_col df ''source_medium'' \<longrightarrow> select_group_col df = Some ''source_medium'') \<and>
   (\<not> has_col df ''source_medium'' \<and> has_col df ''source'' \<longrightarrow>
      select_group_col df = Some ''source'') \<and>
   (\<not> has_col df ''source_medium'' \<and> \<not> has_col df ''source'' \<longrightarrow>
      select_group_col df = None \<and>
      analyze_source_medium df = Inr (NoSourceData ''No source/medium data available'')) \<and>
   (\<forall>gc a. select_group_col df = Some gc \<and>
            analyze_source_medium df = Inr (ChannelAnalysis a) \<longrightarrow>
      hd (columns (by_channel a)) = gc \<and>
      set (map (\<lambda>r. sval r gc) (rows (by_channel a))) =
        set (map (\<lambda>r. sval r gc) (rows df)))"
proof (intro conjI allI impI)
  fix gc a
  assume "select_group_col df = Some gc \<and> analyze_source_medium df = Inr (ChannelAnalysis a)"
  then have "hd (columns (by_channel a)) = gc \<and>
             set (map (\<lambda>r. sval r gc) (rows (by_channel a))) =
               set (map (\<lambda>r. sval r gc) (rows df))"
    using analyze_source_medium_keys by blast
  then show "hd (columns (by_channel a)) = gc"
    and "set (map (\<lambda>r. sval r gc) (rows (by_channel a))) =
           set (map (\<lambda>r. sval r gc) (rows df))"
    by simp_all
qed (simp_all add: select_group_col_def analyze_source_medium_def)

theorem group_key_selection_witness:
  "select_group_col scenario = Some ''source_medium'' \<and>
   select_group_col by_source = Some ''source'' \<and>
   analyze_source_medium totals_only = Inr (NoSourceData ''No source/medium data available'') \<and>
   (\<exists>a. analyze_source_medium scenario = Inr (ChannelAnalysis a) \<and>
        hd (columns (by_channel a)) = ''source_medium'' \<and>
        set (map (\<lambda>r. sval r ''source_medium'') (rows (by_channel a))) =
          {''google / organic'', ''direct / none''})"
proof -
  have c1: "has_col scenario ''source_medium''"
    by (simp add: has_col_def scenario_def)
  have c2: "\<not> has_col by_source ''source_medium'' \<and> has_col by_source ''source''"
    by (simp add: has_col_def by_source_def)
  have c3: "\<not> has_col totals_only ''source_medium'' \<and> \<not> has_col totals_only ''source''"
    by (simp add: has_col_def totals_only_def)
  obtain a where a: "analyze_source_medium scenario = Inr (ChannelAnalysis a)"
    by (simp add: scenario_def engine_defs)
  have k: "select_group_col scenario = Some ''source_medium''"
    using group_key_selection [of scenario] c1 by blast
  have "hd (columns (by_channel a)) = ''source_medium'' \<and>
        set (map (\<lambda>r. sval r ''source_medium'') (rows (by_channel a))) =
          set (map (\<lambda>r. sval r ''source_medium'') (rows scenario))"
    using group_key_selection [of scenario] k a by blast
  moreover have "set (map (\<lambda>r. sval r ''source_medium'') (rows scenario)) =
                 {''google / organic'', ''direct / none''}"
    by (simp add: scenario_def mk_row_def)
  ultimately show ?thesis
    using k a group_key_selection [of by_source] group_key_selection [of totals_only] c2 c3
    by auto
qed

subsection \<open>The insight and recommendation rules\<close>

lemma insight_kinds:
  "map (\<lambda>i. (category i, severity i)) (compile_insights fmt2 fmtc metrics) =
     (if get_top_performers (source_medium_analysis metrics) = [] then []
      else [(''Traffic'', ''positive'')])
     @ (if fl_gt (get0 (entries (m_summary metrics)) ''conversion_rate'') (Some 3)
        then [(''Conversion'', ''positive'')]
        else if fl_gt (get0 (entries (m_summary metrics)) ''conversion_rate'') (Some 0)
        then [(''Conversion'', ''warning'')] else [])
     @ (if fl_lt (get0 (case user_behavior metrics ''engagement_metrics'' of
                          Some d \<Rightarrow> d | None \<Rightarrow> Map.empty)
                      ''engagement_rate'') (Some 50)
        then [(''Engagement'', ''critical'')] else [])"
  by (simp add: compile_insights_def Let_def split: list.splits)

lemma recommendation_priorities:
  "map priority (compile_recommendations metrics) =
     (if get_top_performers (source_medium_analysis metrics) = [] then [] else [''High''])
     @ (if fl_lt (get0 (entries (m_summary metrics)) ''conversion_rate'') (Some 3)
        then [''High''] else [])
     @ (if fl_gt (get0 (entries (m_summary metrics)) ''avg_bounce_rate'') (Some 60)
        then [''Medium''] else [])
     @ (if get_underperformers (source_medium_analysis metrics) \<noteq> [] then [''Medium'']
        else [])"
  by (simp add: compile_recommendations_def Let_def split: list.splits)

lemma scenario_conversion_rate: "calculate_conversion_rate scenario = 3.53"
  by (simp add: calculate_conversion_rate_def scenario_def has_col_def mk_row_def
      col_values_def series_sum_def present_def round2_def rint_def Let_def)

text \<open>
  Claim C8. With \<open>cr\<close> the summary's \<open>conversion_rate\<close> (0 when the key is missing),
  the rules emit the positive Conversion insight exactly when \<open>cr > 3\<close>, the warning
  Conversion insight exactly when \<open>0 < cr \<le> 3\<close>, neither when \<open>cr = 0\<close>, and never
  both.
\<close>

theorem conversion_insight_rules:
  "let cr = get0 (entries (m_summary metrics)) ''conversion_rate'';
       ins = compile_insights fmt2 fmtc metrics;
       pos = (\<exists>i \<in> set ins. category i = ''Conversion'' \<and> severity i = ''positive'');
       warn = (\<exists>i \<in> set ins. category i = ''Conversion'' \<and> severity i = ''warning'')
   in (pos \<longleftrightarrow> (\<exists>x. cr = Some x \<and> x > 3)) \<and>
      (warn \<longleftrightarrow> (\<exists>x. cr = Some x \<and> 0 < x \<and> x \<le> 3)) \<and>
      (cr = Some 0 \<longrightarrow> \<not> pos \<and> \<not> warn) \<and>
      \<not> (pos \<and> warn)"
proof -
  let ?cr = "get0 (entries (m_summary metrics)) ''conversion_rate''"
  let ?ins = "compile_insights fmt2 fmtc metrics"
  let ?ks = "map (\<lambda>i. (category i, severity i)) ?ins"
  have mem: "(\<exists>i \<in> set ?ins. category i = c \<and> severity i = s) \<longleftrightarrow> (c, s) \<in> set ?ks"
    for c s by auto
  have pos: "(''Conversion'', ''positive'') \<in> set ?ks \<longleftrightarrow> (\<exists>x. ?cr = Some x \<and> x > 3)"
    by (simp only: insight_kinds) (cases ?cr; simp add: fl_gt_def)
  have warn: "(''Conversion'', ''warning'') \<in> set ?ks \<longleftrightarrow>
              (\<exists>x. ?cr = Some x \<and> 0 < x \<and> x \<le> 3)"
    by (simp only: insight_kinds) (cases ?cr; auto simp add: fl_gt_def)
  show ?thesis
    unfolding Let_def mem pos warn by auto
qed

theorem conversion_insight_rules_witness:
  "get0 (entries (m_summary scenario_summary)) ''conversion_rate'' = Some 3.53 \<and>
   (\<exists>i \<in> set (compile_insights (\<lambda>v. []) (\<lambda>n. []) scenario_summary).
      category i = ''Conversion'' \<and> severity i = ''positive'') \<and>
   \<not> (\<exists>i \<in> set (compile_insights (\<lambda>v. []) (\<lambda>n. []) scenario_summary).
      category i = ''Conversion'' \<and> severity i = ''warning'')"
proof -
  have cr: "get0 (entries (m_summary scenario_summary)) ''conversion_rate'' = Some 3.53"
    by (simp add: scenario_summary_def compute_summary_metrics_def get0_def
        scenario_conversion_rate)
  have yes: "\<exists>x. get0 (entries (m_summary scenario_summary)) ''conversion_rate'' = Some x \<and> x > 3"
    unfolding cr by (intro exI [of _ "3.53"]) simp
  have no: "\<not> (\<exists>x. get0 (entries (m_summary scenario_summary)) ''conversion_rate'' = Some x
                     \<and> 0 < x \<and> x \<le> 3)"
    unfolding cr by auto
  show ?thesis
    using conversion_insight_rules [of scenario_summary "\<lambda>v. []" "\<lambda>n. []"] yes no cr
    unfolding Let_def by blast
qed

text \<open>
  Claim C10. One run of the rules gives at most 3 insights and at most 4
  recommendations; every insight's severity is \<open>positive\<close>, \<open>warning\<close> or \<open>critical\<close>,
  and every recommendation's priority is \<open>High\<close> or \<open>Medium\<close>.
\<close>

theorem rule_engine_bounds:
  "length (compile_insights fmt2 fmtc metrics) \<le> 3 \<and>
   length (compile_recommendations metrics) \<le> 4 \<and>
   (\<forall>i \<in> set (compile_insights fmt2 fmtc metrics).
      severity i \<in> {''positive'', ''warning'', ''critical''}) \<and>
   (\<forall>r \<in> set (compile_recommendations metrics). priority r \<in> {''High'', ''Medium''})"
proof (intro conjI)
  let ?ks = "map (\<lambda>i. (category i, severity i)) (compile_insights fmt2 fmtc metrics)"
  let ?ps = "map priority (compile_recommendations metrics)"
  have "length ?ks \<le> 3" by (simp only: insight_kinds) simp
  then show "length (compile_insights fmt2 fmtc metrics) \<le> 3" by simp
  have "length ?ps \<le> 4" by (simp only: recommendation_priorities) simp
  then show "length (compile_recommendations metrics) \<le> 4" by simp
  have "\<forall>k \<in> set ?ks. snd k \<in> {''positive'', ''warning'', ''critical''}"
    by (simp only: insight_kinds) auto
  then show "\<forall>i \<in> set (compile_insights fmt2 fmtc metrics).
      severity i \<in> {''positive'', ''warning'', ''critical''}"
    by simp
  have "\<forall>p \<in> set ?ps. p \<in> {''High'', ''Medium''}"
    by (simp only: recommendation_priorities) auto
  then show "\<forall>r \<in> set (compile_recommendations metrics). priority r \<in> {''High'', ''Medium''}"
    by simp
qed

subsection \<open>Rounding\<close>

lemma rint_of_int [simp]: "rint (of_int k) = k"
  by (simp add: rint_def)

lemma rint_0 [simp]: "rint 0 = 0"
  using rint_of_int [of 0] by simp

lemma round2_0 [simp]: "round2 0 = 0"
  by (simp add: round2_def)

subsection \<open>Missing columns\<close>

text \<open>
  Claim C2 (the code departs from it). On a dataset that has \<open>event_name\<close> but no
  \<open>event_count\<close>, the event analysis raises \<open>KeyError\<close>: \<open>_get_top_events\<close> selects
  \<open>event_count\<close> without the check that \<open>_summarize_events\<close> makes through
  \<open>_safe_sum\<close>. Likewise the source/medium analysis raises on a dataset that has
  \<open>source\<close> but no \<open>users\<close>, at \<open>sort_values('users')\<close>.
\<close>

theorem missing_column_raises:
  "analyze_events events_only = Inl (KeyError ''event_count'') \<and>
   analyze_source_medium sessions_by_source = Inl (KeyError ''users'')"
  by (simp add: analyze_events_def get_top_events_def events_only_def sessions_by_source_def
      engine_defs)

subsection \<open>The retention indicator\<close>

text \<open>
  Claim C4 (the code departs from it). On two rows with 1 user and 2 sessions each,
  \<open>_compute_retention_indicators\<close> divides the mean of \<open>sessions\<close> (2) by the total
  of \<open>users\<close> (2) and returns 1, where the total of \<open>sessions\<close> (4) divided by the
  total of \<open>users\<close> gives 2.
\<close>

theorem retention_indicator_uses_mean:
  "compute_retention_indicators totals_only ''returning_user_indicator'' = Some (Some 1) \<and>
   spec_returning_user_indicator totals_only = 2"
  by (simp add: compute_retention_indicators_def spec_returning_user_indicator_def
      totals_only_def safe_mean_def safe_sum_def fl_round2_def round2_def rint_def engine_defs)

subsection \<open>The performance score\<close>

lemma score_formula:
  "calculate_performance_score cols r =
     round2 ((case (if ''conversion_rate'' \<in> set cols then nval r ''conversion_rate'' else None) of
                Some v \<Rightarrow> 0.4 * v | None \<Rightarrow> 0)
           + (case (if ''sessions_per_user'' \<in> set cols then nval r ''sessions_per_user'' else None) of
                Some v \<Rightarrow> 0.3 * v | None \<Rightarrow> 0)
           + (case (if ''bounce_rate'' \<in> set cols then nval r ''bounce_rate'' else None) of
                Some v \<Rightarrow> 0.3 * (100 - v) | None \<Rightarrow> 0))"
  by (simp add: calculate_performance_score_def weights_def score_step_def mult.commute split: option.splits)

lemma collect_map_Inr:
  "(\<And>x. x \<in> set xs \<Longrightarrow> f x = Inr (h x)) \<Longrightarrow> collect (map f xs) = Inr (map h xs)"
  by (induction xs) auto

lemma top_entry_Inr:
  assumes "''users'' \<in> set cols \<longrightarrow> nval r ''users'' \<noteq> None"
  shows "top_entry cols r = Inr \<lparr> perf_channel = channel_of cols r,
            perf_users = py_int (if ''users'' \<in> set cols then the (nval r ''users'') else 0),
            performance_score = calculate_performance_score cols r \<rparr>"
  using assms by (auto simp: top_entry_def int_of_cell_def)

text \<open>
  Claim C5. Provided no \<open>users\<close> value among the first five groups is \<open>NaN\<close> (it is
  a sum), \<open>_identify_top_performers\<close> returns one entry for each of the first five
  groups, and the entry's \<open>performance_score\<close> is
  \<open>0.4 \<times> conversion_rate + 0.3 \<times> sessions_per_user + 0.3 \<times> (100 - bounce_rate)\<close> rounded
  to 2 decimals, where a metric whose column is absent or whose value is \<open>NaN\<close>
  contributes 0; with all three absent the score is 0.
\<close>

theorem performance_score_formula:
  assumes "\<forall>r \<in> set (take 5 (rows g)). has_col g ''users'' \<longrightarrow> nval r ''users'' \<noteq> None"
  shows "\<exists>ps. identify_top_performers g = Inr ps \<and> length ps = min 5 (length (rows g)) \<and>
     (\<forall>i < length ps.
        let mv = (\<lambda>m. if has_col g m then nval (rows g ! i) m else None) in
        performance_score (ps ! i) =
          round2 ((case mv ''conversion_rate'' of Some v \<Rightarrow> 0.4 * v | None \<Rightarrow> 0)
                + (case mv ''sessions_per_user'' of Some v \<Rightarrow> 0.3 * v | None \<Rightarrow> 0)
                + (case mv ''bounce_rate'' of Some v \<Rightarrow> 0.3 * (100 - v) | None \<Rightarrow> 0)) \<and>
        (mv ''conversion_rate'' = None \<and> mv ''sessions_per_user'' = None \<and>
         mv ''bounce_rate'' = None \<longrightarrow> performance_score (ps ! i) = 0))"
proof -
  let ?cols = "columns g"
  let ?h = "\<lambda>r. \<lparr> perf_channel = channel_of ?cols r,
            perf_users = py_int (if ''users'' \<in> set ?cols then the (nval r ''users'') else 0),
            performance_score = calculate_performance_score ?cols r \<rparr>"
  let ?ps = "map ?h (take 5 (rows g))"
  have ret: "identify_top_performers g = Inr ?ps"
    unfolding identify_top_performers_def
    by (rule collect_map_Inr, rule top_entry_Inr) (use assms in \<open>auto simp: has_col_def\<close>)
  have len: "length ?ps = min 5 (length (rows g))" by simp
  have sc: "performance_score (?ps ! i) = calculate_performance_score ?cols (rows g ! i)"
    if "i < length ?ps" for i
    using that by simp
  show ?thesis
  proof (intro exI conjI allI impI)
    show "identify_top_performers g = Inr ?ps" by (rule ret)
    show "length ?ps = min 5 (length (rows g))" by (rule len)
    fix i assume i: "i < length ?ps"
    let ?mv = "\<lambda>m. if has_col g m then nval (rows g ! i) m else None"
    let ?f = "round2 ((case ?mv ''conversion_rate'' of Some v \<Rightarrow> 0.4 * v | None \<Rightarrow> 0)
                + (case ?mv ''sessions_per_user'' of Some v \<Rightarrow> 0.3 * v | None \<Rightarrow> 0)
                + (case ?mv ''bounce_rate'' of Some v \<Rightarrow> 0.3 * (100 - v) | None \<Rightarrow> 0))"
    have "calculate_performance_score ?cols (rows g ! i) = ?f"
      by (simp only: score_formula has_col_def)
    then have f: "performance_score (?ps ! i) = ?f"
      using sc [OF i] by simp
    have z: "?f = 0" if "?mv ''conversion_rate'' = None" "?mv ''sessions_per_user'' = None"
        "?mv ''bounce_rate'' = None"
      by (simp only: that option.case add_0 round2_0)
    show "let mv = ?mv in
        performance_score (?ps ! i) =
          round2 ((case mv ''conversion_rate'' of Some v \<Rightarrow> 0.4 * v | None \<Rightarrow> 0)
                + (case mv ''sessions_per_user'' of Some v \<Rightarrow> 0.3 * v | None \<Rightarrow> 0)
                + (case mv ''bounce_rate'' of Some v \<Rightarrow> 0.3 * (100 - v) | None \<Rightarrow> 0)) \<and>
        (mv ''conversion_rate'' = None \<and> mv ''sessions_per_user'' = None \<and>
         mv ''bounce_rate'' = None \<longrightarrow> performance_score (?ps ! i) = 0)"
      unfolding Let_def
    proof (intro conjI impI)
      show "performance_score (?ps ! i) = ?f" by (rule f)
    next
      assume "?mv ''conversion_rate'' = None \<and> ?mv ''sessions_per_user'' = None \<and>
         ?mv ''bounce_rate'' = None"
      then have "?f = 0" using z by blast
      then show "performance_score (?ps ! i) = 0" by (simp only: f)
    qed
  qed
qed

lemma scenario_grouped_columns:
  "columns scenario_grouped = [''source_medium'', ''users'', ''sessions'', ''conversions'',
     ''bounce_rate'', ''sessions_per_user'', ''conversion_rate'']"
  by (simp add: scenario_grouped_def scenario_def engine_defs)

lemma scenario_grouped_rows:
  "map (\<lambda>r. (sval r ''source_medium'', map (nval r) [''users'', ''sessions'', ''conversions'',
         ''bounce_rate'', ''sessions_per_user'', ''conversion_rate''])) (rows scenario_grouped)
   = [(''google / organic'', [Some 100, Some 120, Some 6, Some 40, Some 1.2, Some 5]),
      (''direct / none'', [Some 50, Some 50, Some 0, Some 80, Some 1, Some 0])]"
  by (simp add: scenario_grouped_def scenario_def engine_defs)

lemma round2_2036: "round2 (509 / 25) = 20.36"
  by (simp add: round2_def rint_def)

theorem performance_score_formula_witness:
  "list_all (\<lambda>r. nval r ''users'' \<noteq> None) (take 5 (rows scenario_grouped)) \<and>
   (\<exists>ps. identify_top_performers scenario_grouped = Inr ps \<and> length ps = 2 \<and>
         performance_score (ps ! 0) = 20.36)"
proof -
  obtain r0 r1 where rs: "rows scenario_grouped = [r0, r1]"
    and r0: "nval r0 ''users'' = Some 100" "nval r0 ''conversion_rate'' = Some 5"
            "nval r0 ''sessions_per_user'' = Some 1.2" "nval r0 ''bounce_rate'' = Some 40"
    and r1: "nval r1 ''users'' = Some 50"
    using scenario_grouped_rows by auto
  have h: "\<forall>r \<in> set (take 5 (rows scenario_grouped)).
      has_col scenario_grouped ''users'' \<longrightarrow> nval r ''users'' \<noteq> None"
    by (simp add: rs r0 r1)
  from performance_score_formula [OF h] obtain ps where
    ps: "identify_top_performers scenario_grouped = Inr ps" "length ps = 2"
    and sc: "\<forall>i < length ps.
        let mv = (\<lambda>m. if has_col scenario_grouped m then nval (rows scenario_grouped ! i) m else None) in
        performance_score (ps ! i) =
          round2 ((case mv ''conversion_rate'' of Some v \<Rightarrow> 0.4 * v | None \<Rightarrow> 0)
                + (case mv ''sessions_per_user'' of Some v \<Rightarrow> 0.3 * v | None \<Rightarrow> 0)
                + (case mv ''bounce_rate'' of Some v \<Rightarrow> 0.3 * (100 - v) | None \<Rightarrow> 0)) \<and>
        (mv ''conversion_rate'' = None \<and> mv ''sessions_per_user'' = None \<and>
         mv ''bounce_rate'' = None \<longrightarrow> performance_score (ps ! i) = 0)"
    by (auto simp: rs)
  from sc ps(2) have "performance_score (ps ! 0) = round2 (509 / 25)"
    by (simp add: Let_def has_col_def scenario_grouped_columns rs r0)
  then have "performance_score (ps ! 0) = 20.36"
    by (simp only: round2_2036)
  moreover have "list_all (\<lambda>r. nval r ''users'' \<noteq> None) (take 5 (rows scenario_grouped))"
    by (simp add: rs r0 r1)
  ultimately show ?thesis using ps by blast
qed

subsection \<open>The scenario, end to end\<close>

lemma sqrt_800: "20 < sqrt 800"
  by (rule real_less_rsqrt) simp

lemma scenario_underperformers: "identify_underperformers scenario_grouped = []"
proof -
  obtain r0 r1 where rs: "rows scenario_grouped = [r0, r1]"
    and b: "nval r0 ''bounce_rate'' = Some 40" "nval r1 ''bounce_rate'' = Some 80"
    using scenario_grouped_rows by auto
  show ?thesis
    using sqrt_800
    by (simp add: identify_underperformers_def has_col_def scenario_grouped_columns col_values_def
        rs b series_mean_def series_std_def present_def fl_add_def fl_gt_def Let_def power2_eq_square)
qed

lemma analyze_source_medium_parts:
  assumes "analyze_source_medium df = Inr (ChannelAnalysis a)" "select_group_col df = Some gc"
  shows "identify_top_performers (by_channel a) = Inr (top_performers a)"
    and "underperformers a = identify_underperformers (by_channel a)"
    and "calculate_distribution (by_channel a) ''users'' = Inr (channel_distribution a)"
proof -
  from assms obtain g tp cd q where
    p: "identify_top_performers g = Inr tp" "calculate_distribution g ''users'' = Inr cd"
    and e: "\<lparr> by_channel = g, top_performers = tp,
              underperformers = identify_underperformers g,
              channel_distribution = cd, quality_analysis = q \<rparr> = a"
    by (auto simp: analyze_source_medium_def split: sum.splits)
  from e have "by_channel a = g" "top_performers a = tp" "channel_distribution a = cd"
    "underperformers a = identify_underperformers g"
    by auto
  with p show "identify_top_performers (by_channel a) = Inr (top_performers a)"
    and "underperformers a = identify_underperformers (by_channel a)"
    and "calculate_distribution (by_channel a) ''users'' = Inr (channel_distribution a)"
    by simp_all
qed

lemma scenario_top_performers:
  "\<exists>ps. identify_top_performers scenario_grouped = Inr ps \<and> length ps = 2"
proof -
  obtain r0 r1 where rs: "rows scenario_grouped = [r0, r1]"
    and u: "nval r0 ''users'' = Some 100" "nval r1 ''users'' = Some 50"
    using scenario_grouped_rows by auto
  show ?thesis
    by (simp add: identify_top_performers_def top_entry_def int_of_cell_def rs u
        scenario_grouped_columns)
qed

lemma scenario_analysis:
  "\<exists>a. analyze_source_medium scenario = Inr (ChannelAnalysis a) \<and> by_channel a = scenario_grouped
     \<and> length (top_performers a) = 2 \<and> underperformers a = []"
proof -
  obtain a where a: "analyze_source_medium scenario = Inr (ChannelAnalysis a)"
    by (simp add: scenario_def engine_defs)
  have k: "select_group_col scenario = Some ''source_medium''"
    by (simp add: select_group_col_def scenario_def has_col_def)
  have g: "sort_values_desc (derived_metrics (groupby_agg scenario ''source_medium'')) ''users'' = Inr (by_channel a)"
    using a k by (rule analyze_source_medium_grouped)
  then have bc: "by_channel a = scenario_grouped" by (simp add: scenario_grouped_def)
  show ?thesis
    using scenario_top_performers a bc scenario_underperformers analyze_source_medium_parts [OF a k] by auto
qed


lemma scenario_metrics_parts:
  "m_summary scenario_metrics = compute_summary_metrics scenario \<and>
   user_behavior scenario_metrics = analyze_user_behavior scenario \<and>
   get_top_performers (source_medium_analysis scenario_metrics) \<noteq> [] \<and>
   get_underperformers (source_medium_analysis scenario_metrics) = []"
proof -
  obtain a where a: "analyze_source_medium scenario = Inr (ChannelAnalysis a)"
    "length (top_performers a) = 2" "underperformers a = []"
    using scenario_analysis by blast
  have e: "analyze_events scenario = Inr (NoEventData ''No event data available in CSV'')"
    by (simp add: analyze_events_def has_col_def scenario_def)
  have "process_metrics scenario = Inr \<lparr> m_summary = compute_summary_metrics scenario,
          source_medium_analysis = ChannelAnalysis a,
          user_behavior = analyze_user_behavior scenario,
          m_event_analysis = NoEventData ''No event data available in CSV'' \<rparr>"
    by (simp add: process_metrics_def a e)
  then show ?thesis
    using a by (auto simp: scenario_metrics_def get_top_performers_def get_underperformers_def)
qed

lemma scenario_bounce_rate: "safe_mean scenario ''bounce_rate'' = Some 60"
  by (simp add: safe_mean_def scenario_def has_col_def mk_row_def col_values_def
      series_mean_def present_def)

lemma scenario_rule_inputs:
  "get0 (entries (m_summary scenario_metrics)) ''conversion_rate'' = Some 3.53 \<and>
   get0 (entries (m_summary scenario_metrics)) ''avg_bounce_rate'' = Some 60 \<and>
   get0 (case user_behavior scenario_metrics ''engagement_metrics'' of
           Some d \<Rightarrow> d | None \<Rightarrow> Map.empty) ''engagement_rate'' = Some 40"
  using scenario_metrics_parts
  by (simp add: compute_summary_metrics_def analyze_user_behavior_def
      compute_engagement_metrics_def get0_def scenario_conversion_rate scenario_bounce_rate
      fl_sub_def)

theorem rule_engine_bounds_witness:
  "map severity (compile_insights (\<lambda>v. []) (\<lambda>n. []) scenario_metrics) =
     [''positive'', ''positive'', ''critical''] \<and>
   map priority (compile_recommendations scenario_metrics) = [''High''] \<and>
   length (compile_insights (\<lambda>v. []) (\<lambda>n. []) scenario_metrics) \<le> 3 \<and>
   length (compile_recommendations scenario_metrics) \<le> 4 \<and>
   list_all (\<lambda>i. severity i \<in> {''positive'', ''warning'', ''critical''})
     (compile_insights (\<lambda>v. []) (\<lambda>n. []) scenario_metrics) \<and>
   list_all (\<lambda>r. priority r \<in> {''High'', ''Medium''}) (compile_recommendations scenario_metrics)"
proof -
  have "map (\<lambda>i. (category i, severity i)) (compile_insights (\<lambda>v. []) (\<lambda>n. []) scenario_metrics) =
        [(''Traffic'', ''positive''), (''Conversion'', ''positive''), (''Engagement'', ''critical'')]"
    using scenario_metrics_parts scenario_rule_inputs
    by (simp add: insight_kinds fl_gt_def fl_lt_def)
  then have "map snd (map (\<lambda>i. (category i, severity i)) (compile_insights (\<lambda>v. []) (\<lambda>n. []) scenario_metrics)) =
        [''positive'', ''positive'', ''critical'']"
    by simp
  then have i: "map severity (compile_insights (\<lambda>v. []) (\<lambda>n. []) scenario_metrics) =
     [''positive'', ''positive'', ''critical'']"
    by (simp add: comp_def)
  have r: "map priority (compile_recommendations scenario_metrics) = [''High'']"
    using scenario_metrics_parts scenario_rule_inputs
    by (simp add: recommendation_priorities fl_gt_def fl_lt_def)
  show ?thesis
    unfolding list_all_iff
    using i r rule_engine_bounds [of "\<lambda>v. []" "\<lambda>n. []" scenario_metrics] by blast
qed

subsection \<open>Zero sessions\<close>

lemma derived_conversion_rate:
  assumes "has_col g ''conversions''" "has_col g ''sessions''"
  shows "has_col (derived_metrics g) ''conversion_rate'' \<and>
         (\<forall>r \<in> set (rows (derived_metrics g)).
            nval r ''sessions'' = Some 0 \<longrightarrow> nval r ''conversion_rate'' = None)"
  using assms
  by (auto simp: derived_metrics_def add_conversion_rate_def add_sessions_per_user_def
      set_column_def has_col_def replace0_def fl_div_def fl_mul_def split: option.splits)

lemma columns_derived:
  "set (columns (derived_metrics g)) \<subseteq> set (columns g) \<union> {''sessions_per_user'', ''conversion_rate''}"
  by (auto simp: derived_metrics_def add_conversion_rate_def add_sessions_per_user_def
      set_column_def split: if_splits)

lemma columns_groupby:
  "set (columns (groupby_agg df gc)) \<subseteq>
     {gc, ''users'', ''sessions'', ''pageviews'', ''conversions'', ''revenue'',
      ''bounce_rate'', ''avg_session_duration''}"
  by (auto simp: groupby_agg_def sum_cols_def mean_cols_def)

lemma has_col_groupby:
  "has_col df ''conversions'' \<Longrightarrow> has_col (groupby_agg df gc) ''conversions''"
  "has_col df ''sessions'' \<Longrightarrow> has_col (groupby_agg df gc) ''sessions''"
  by (simp_all add: groupby_agg_def sum_cols_def has_col_def)

lemma select_group_col_cases:
  "select_group_col df = Some gc \<Longrightarrow> gc = ''source_medium'' \<or> gc = ''source''"
  by (auto simp: select_group_col_def split: if_splits)

lemma summary_zero:
  assumes "safe_sum df ''sessions'' = 0"
  shows "calculate_pages_per_session df = 0" "calculate_conversion_rate df = 0"
  using assms
  by (simp_all add: calculate_pages_per_session_def calculate_conversion_rate_def safe_sum_def
      Let_def split: if_splits)

lemma grouped_zero_sessions:
  assumes a: "analyze_source_medium df = Inr (ChannelAnalysis a)"
  shows "\<not> has_col (by_channel a) ''pages_per_session''"
    and "has_col df ''conversions'' \<and> has_col df ''sessions'' \<longrightarrow>
         has_col (by_channel a) ''conversion_rate'' \<and>
         (\<forall>r \<in> set (rows (by_channel a)).
            nval r ''sessions'' = Some 0 \<longrightarrow> nval r ''conversion_rate'' = None)"
proof -
  from a obtain gc where k: "select_group_col df = Some gc"
    by (auto simp: analyze_source_medium_def split: option.splits)
  let ?d = "derived_metrics (groupby_agg df gc)"
  have "sort_values_desc ?d ''users'' = Inr (by_channel a)"
    using a k by (rule analyze_source_medium_grouped)
  then have eq: "by_channel a = ?d\<lparr>rows := foldr (insert_desc ''users'') (rows ?d) []\<rparr>"
    by (rule sorted_frame)
  have cols: "columns (by_channel a) = columns ?d" by (subst eq) simp
  have rws: "set (rows (by_channel a)) = set (rows ?d)"
    by (subst eq) (simp add: set_foldr_insert_desc)
  have "''pages_per_session'' \<notin> set (columns ?d)"
    using columns_derived [of "groupby_agg df gc"] columns_groupby [of df gc]
      select_group_col_cases [OF k]
    by auto
  then show "\<not> has_col (by_channel a) ''pages_per_session''"
    by (simp add: has_col_def cols)
  show "has_col df ''conversions'' \<and> has_col df ''sessions'' \<longrightarrow>
         has_col (by_channel a) ''conversion_rate'' \<and>
         (\<forall>r \<in> set (rows (by_channel a)).
            nval r ''sessions'' = Some 0 \<longrightarrow> nval r ''conversion_rate'' = None)"
    using derived_conversion_rate [of "groupby_agg df gc"] has_col_groupby [of df gc]
    by (simp add: has_col_def cols rws)
qed

text \<open>
  Claim C1, as the code has it. When the total of \<open>sessions\<close> is 0 (or the column is
  absent) the summary's \<open>pages_per_session\<close> and \<open>conversion_rate\<close> are 0. In the
  per-channel aggregates no \<open>pages_per_session\<close> is computed at all, and a group whose
  \<open>sessions\<close> sum is 0 has the \<open>conversion_rate\<close> \<open>NaN\<close> (undefined), not 0: the
  divisor goes through \<open>replace(0, np.nan)\<close>.
\<close>

theorem zero_sessions_defaults:
  "(safe_sum df ''sessions'' = 0 \<longrightarrow>
      calculate_pages_per_session df = 0 \<and> calculate_conversion_rate df = 0 \<and>
      entries (compute_summary_metrics df) ''pages_per_session'' = Some (Some 0) \<and>
      entries (compute_summary_metrics df) ''conversion_rate'' = Some (Some 0)) \<and>
   (\<forall>a. analyze_source_medium df = Inr (ChannelAnalysis a) \<longrightarrow>
      \<not> has_col (by_channel a) ''pages_per_session'' \<and>
      (has_col df ''conversions'' \<and> has_col df ''sessions'' \<longrightarrow>
         has_col (by_channel a) ''conversion_rate'' \<and>
         (\<forall>r \<in> set (rows (by_channel a)).
            nval r ''sessions'' = Some 0 \<longrightarrow> nval r ''conversion_rate'' = None)))"
proof (intro conjI allI impI)
  assume z: "safe_sum df ''sessions'' = 0"
  show "calculate_pages_per_session df = 0" "calculate_conversion_rate df = 0"
    using z by (rule summary_zero)+
  then show "entries (compute_summary_metrics df) ''pages_per_session'' = Some (Some 0)"
    "entries (compute_summary_metrics df) ''conversion_rate'' = Some (Some 0)"
    by (simp_all add: compute_summary_metrics_def)
next
  fix a assume a: "analyze_source_medium df = Inr (ChannelAnalysis a)"
  show "\<not> has_col (by_channel a) ''pages_per_session''"
    using a by (rule grouped_zero_sessions)
  assume c: "has_col df ''conversions'' \<and> has_col df ''sessions''"
  show "has_col (by_channel a) ''conversion_rate''"
    "\<forall>r \<in> set (rows (by_channel a)).
            nval r ''sessions'' = Some 0 \<longrightarrow> nval r ''conversion_rate'' = None"
    using grouped_zero_sessions(2) [OF a] c by blast+
qed

text \<open>
  Claim C1 as stated fails for the groups: the channel \<open>newsletter\<close> has a \<open>sessions\<close>
  sum of 0 and its \<open>conversion_rate\<close> is \<open>NaN\<close>, not 0.
\<close>

theorem zero_sessions_group_counterexample:
  "(case analyze_source_medium by_source of
      Inr (ChannelAnalysis a) \<Rightarrow>
        map (\<lambda>r. (sval r ''source'', nval r ''sessions'', nval r ''conversion_rate''))
            (rows (by_channel a))
    | _ \<Rightarrow> []) = [(''newsletter'', Some 0, None), (''google'', Some 8, Some 25)]"
  by (simp add: by_source_def engine_defs)

theorem zero_sessions_defaults_witness:
  "safe_sum no_sessions ''sessions'' = 0 \<and>
   calculate_pages_per_session no_sessions = 0 \<and>
   calculate_conversion_rate no_sessions = 0 \<and>
   (\<exists>a. analyze_source_medium by_source = Inr (ChannelAnalysis a) \<and>
        \<not> has_col (by_channel a) ''pages_per_session'' \<and>
        (\<exists>r \<in> set (rows (by_channel a)).
           nval r ''sessions'' = Some 0 \<and> nval r ''conversion_rate'' = None))"
proof -
  have z: "safe_sum no_sessions ''sessions'' = 0"
    by (simp add: safe_sum_def no_sessions_def has_col_def col_values_def series_sum_def
        present_def mk_row_def)
  obtain a where a: "analyze_source_medium by_source = Inr (ChannelAnalysis a)"
    by (simp add: by_source_def engine_defs)
  have c: "has_col by_source ''conversions'' \<and> has_col by_source ''sessions''"
    by (simp add: has_col_def by_source_def)
  have k: "select_group_col by_source = Some ''source''"
    by (simp add: select_group_col_def has_col_def by_source_def)
  have "sort_values_desc (derived_metrics (groupby_agg by_source ''source'')) ''users'' =
        Inr (by_channel a)"
    using a k by (rule analyze_source_medium_grouped)
  then have "rows (by_channel a) = foldr (insert_desc ''users'')
               (rows (derived_metrics (groupby_agg by_source ''source''))) []"
    by (auto dest: sorted_frame)
  then have "map (\<lambda>r. nval r ''sessions'') (rows (by_channel a)) = [Some 0, Some 8]"
    by (simp add: by_source_def engine_defs)
  then have "\<exists>r \<in> set (rows (by_channel a)). nval r ''sessions'' = Some 0"
    by (auto simp: map_eq_Cons_conv)
  then obtain r where r: "r \<in> set (rows (by_channel a))" "nval r ''sessions'' = Some 0"
    by blast
  show ?thesis
    using z a c r zero_sessions_defaults [of no_sessions] zero_sessions_defaults [of by_source]
    by blast
qed

subsection \<open>The channel distribution\<close>

lemma rint_error: "\<bar>of_int (rint x) - x\<bar> \<le> 1 / 2"
proof -
  have "of_int \<lfloor>x\<rfloor> \<le> x" "x < of_int \<lfloor>x\<rfloor> + 1" by linarith+
  then show ?thesis
    by (auto simp: rint_def Let_def)
qed

lemma round2_error: "\<bar>round2 x - x\<bar> \<le> 0.005"
proof -
  have "\<bar>of_int (rint (x * 100)) - x * 100\<bar> \<le> 1 / 2" by (rule rint_error)
  then show ?thesis by (simp add: round2_def abs_le_iff field_simps)
qed

lemma rint_range: "0 \<le> x \<Longrightarrow> x \<le> of_int k \<Longrightarrow> 0 \<le> rint x \<and> rint x \<le> k"
proof -
  assume a: "0 \<le> x" "x \<le> of_int k"
  have e: "\<bar>of_int (rint x) - x\<bar> \<le> 1 / 2" by (rule rint_error)
  from e a have "real_of_int (rint x) \<ge> - (1 / 2)" "real_of_int (rint x) \<le> of_int k + 1 / 2"
    by linarith+
  then have "rint x > -1" "rint x < k + 1" by linarith+
  then show ?thesis by simp
qed

lemma round2_range: "0 \<le> x \<Longrightarrow> x \<le> 100 \<Longrightarrow> 0 \<le> round2 x \<and> round2 x \<le> 100"
proof -
  assume a: "0 \<le> x" "x \<le> 100"
  have "0 \<le> rint (x * 100) \<and> rint (x * 100) \<le> 10000"
    by (rule rint_range) (use a in simp_all)
  then have "0 \<le> real_of_int (rint (x * 100))" "real_of_int (rint (x * 100)) \<le> 10000"
    by linarith+
  then show ?thesis by (simp add: round2_def)
qed

lemma sum_list_round2_error:
  "\<bar>sum_list (map (\<lambda>x. round2 (f x)) xs) - sum_list (map f xs)\<bar> \<le> 0.005 * real (length xs)"
proof (induction xs)
  case Nil
  then show ?case by simp
next
  case (Cons x xs)
  let ?a = "round2 (f x) - f x"
  let ?b = "sum_list (map (\<lambda>x. round2 (f x)) xs) - sum_list (map f xs)"
  have "sum_list (map (\<lambda>x. round2 (f x)) (x # xs)) - sum_list (map f (x # xs)) = ?a + ?b"
    by simp
  moreover have "\<bar>?a + ?b\<bar> \<le> \<bar>?a\<bar> + \<bar>?b\<bar>" by (rule abs_triangle_ineq)
  moreover have "\<bar>?a\<bar> \<le> 0.005" by (rule round2_error)
  moreover have "\<bar>?b\<bar> \<le> 0.005 * real (length xs)" by (rule Cons.IH)
  ultimately have "\<bar>sum_list (map (\<lambda>x. round2 (f x)) (x # xs)) - sum_list (map f (x # xs))\<bar>
      \<le> 0.005 + 0.005 * real (length xs)"
    by linarith
  then show ?case by simp
qed

lemma present_all:
  "\<forall>v \<in> set vs. v \<noteq> None \<Longrightarrow> present vs = map the vs"
  by (induction vs) (auto simp: present_def)

lemma sum_list_scaled:
  "sum_list (map (\<lambda>x. f x / t * 100) xs) = sum_list (map f xs) / t * (100::real)"
  by (induction xs) (simp_all add: add_divide_distrib distrib_right)

lemma member_le_sum_list_real:
  "\<forall>y \<in> set xs. 0 \<le> y \<Longrightarrow> x \<in> set xs \<Longrightarrow> x \<le> sum_list xs" for x :: real
  by (induction xs) (auto simp: sum_list_nonneg add_increasing add_increasing2)

lemma distribution_value:
  assumes "has_col g c" "\<forall>r \<in> set (rows g). nval r c \<noteq> None"
  shows "calculate_distribution g c =
     Inr (map (\<lambda>r. \<lparr> dist_channel = channel_of (columns g) r,
                      dist_value = py_int (the (nval r c)),
                      percentage = (if series_sum (col_values g c) > 0
                                    then round2 ((the (nval r c) / series_sum (col_values g c)) * 100)
                                    else 0) \<rparr>) (rows g))"
  using assms
  by (simp add: calculate_distribution_def Let_def)
     (rule collect_map_Inr, auto simp: dist_entry_def int_of_cell_def)

lemma column_total:
  assumes "\<forall>r \<in> set (rows g). nval r c \<noteq> None"
  shows "series_sum (col_values g c) = sum_list (map (\<lambda>r. the (nval r c)) (rows g))"
proof -
  have "present (col_values g c) = map the (col_values g c)"
    by (rule present_all) (use assms in \<open>auto simp: col_values_def\<close>)
  then show ?thesis by (simp add: series_sum_def col_values_def comp_def)
qed

text \<open>
  Claim C7. For a grouped frame with a \<open>users\<close> column whose values are numbers (they
  are sums), \<open>_calculate_distribution\<close> returns one entry per group; each percentage
  is the group's share of the column total times 100, rounded to 2 decimals. When
  the total is positive the percentages sum to 100 within the rounding error, at
  most 0.005 per entry; when the total is 0 every percentage is 0.
\<close>

theorem distribution_sums_to_100:
  assumes "has_col g ''users''" "\<forall>r \<in> set (rows g). nval r ''users'' \<noteq> None"
  shows "\<exists>d. calculate_distribution g ''users'' = Inr d \<and> length d = length (rows g) \<and>
     (let tot = sum_list (map (\<lambda>r. the (nval r ''users'')) (rows g)) in
      (\<forall>i < length d. percentage (d ! i) =
          (if tot > 0 then round2 (the (nval (rows g ! i) ''users'') / tot * 100) else 0)) \<and>
      (tot > 0 \<longrightarrow> \<bar>sum_list (map percentage d) - 100\<bar> \<le> 0.005 * real (length d)) \<and>
      (tot = 0 \<longrightarrow> (\<forall>s \<in> set d. percentage s = 0)))"
proof -
  let ?u = "\<lambda>r. the (nval r ''users'')"
  let ?tot = "sum_list (map ?u (rows g))"
  let ?h = "\<lambda>r. \<lparr> dist_channel = channel_of (columns g) r, dist_value = py_int (?u r),
                   percentage = (if ?tot > 0 then round2 ((?u r / ?tot) * 100) else 0) \<rparr>"
  let ?d = "map ?h (rows g)"
  have ret: "calculate_distribution g ''users'' = Inr ?d"
    using distribution_value [OF assms] column_total [OF assms(2)] by simp
  have pct: "map percentage ?d = map (\<lambda>r. if ?tot > 0 then round2 (?u r / ?tot * 100) else 0) (rows g)"
    by simp
  have each: "\<forall>i < length ?d. percentage (?d ! i) =
          (if ?tot > 0 then round2 (?u (rows g ! i) / ?tot * 100) else 0)"
    by simp
  have pos: "\<bar>sum_list (map percentage ?d) - 100\<bar> \<le> 0.005 * real (length ?d)" if t: "?tot > 0"
  proof -
    have "sum_list (map percentage ?d) = sum_list (map (\<lambda>r. round2 (?u r / ?tot * 100)) (rows g))"
      using t by (simp add: comp_def)
    moreover have "sum_list (map (\<lambda>r. ?u r / ?tot * 100) (rows g)) = ?tot / ?tot * 100"
      by (rule sum_list_scaled)
    moreover have "?tot / ?tot * 100 = 100"
      using t by simp
    moreover have "\<bar>sum_list (map (\<lambda>r. round2 (?u r / ?tot * 100)) (rows g))
                    - sum_list (map (\<lambda>r. ?u r / ?tot * 100) (rows g))\<bar>
                   \<le> 0.005 * real (length (rows g))"
      by (rule sum_list_round2_error)
    ultimately show ?thesis by simp
  qed
  have zero: "\<forall>s \<in> set ?d. percentage s = 0" if "?tot = 0"
    using that by auto
  show ?thesis
    unfolding Let_def
    by (intro exI [of _ ?d] conjI impI ret each pos zero) simp_all
qed

text \<open>
  Claim C9. When every \<open>users\<close> value of the grouped frame is a non-negative number,
  \<open>_calculate_distribution\<close> returns, and every percentage it returns lies between 0
  and 100.
\<close>

theorem distribution_percentage_range:
  assumes "\<forall>r \<in> set (rows g). \<exists>v. nval r ''users'' = Some v \<and> 0 \<le> v"
  shows "\<exists>d. calculate_distribution g ''users'' = Inr d \<and>
             (\<forall>s \<in> set d. 0 \<le> percentage s \<and> percentage s \<le> 100)"
proof (cases "has_col g ''users''")
  case False
  then show ?thesis by (simp add: calculate_distribution_def)
next
  case True
  let ?u = "\<lambda>r. the (nval r ''users'')"
  let ?tot = "sum_list (map ?u (rows g))"
  have nn: "\<forall>r \<in> set (rows g). nval r ''users'' \<noteq> None" using assms by auto
  have u0: "\<forall>y \<in> set (map ?u (rows g)). 0 \<le> y" using assms by auto
  let ?h = "\<lambda>r. \<lparr> dist_channel = channel_of (columns g) r, dist_value = py_int (?u r),
                   percentage = (if ?tot > 0 then round2 ((?u r / ?tot) * 100) else 0) \<rparr>"
  have ret: "calculate_distribution g ''users'' = Inr (map ?h (rows g))"
    using distribution_value [OF True nn] column_total [OF nn] by simp
  have "0 \<le> percentage (?h r) \<and> percentage (?h r) \<le> 100" if r: "r \<in> set (rows g)" for r
  proof (cases "?tot > 0")
    case False
    then show ?thesis by simp
  next
    case t: True
    have "0 \<le> ?u r" using u0 r by auto
    moreover have "?u r \<le> ?tot"
      by (rule member_le_sum_list_real [OF u0]) (use r in auto)
    ultimately have "0 \<le> ?u r / ?tot * 100" "?u r / ?tot * 100 \<le> 100"
      using t by (simp_all add: field_simps)
    then have "0 \<le> round2 (?u r / ?tot * 100) \<and> round2 (?u r / ?tot * 100) \<le> 100"
      by (rule round2_range)
    then show ?thesis using t by simp
  qed
  then show ?thesis using ret by auto
qed


lemma scenario_grouped_users:
  "\<exists>r0 r1. rows scenario_grouped = [r0, r1] \<and> nval r0 ''users'' = Some 100 \<and>
           nval r1 ''users'' = Some 50"
  using scenario_grouped_rows by auto

theorem distribution_sums_to_100_witness:
  "has_col scenario_grouped ''users'' \<and>
   list_all (\<lambda>r. nval r ''users'' \<noteq> None) (rows scenario_grouped) \<and>
   (\<exists>d. calculate_distribution scenario_grouped ''users'' = Inr d \<and> length d = 2 \<and>
        \<bar>sum_list (map percentage d) - 100\<bar> \<le> 0.005 * 2)"
proof -
  obtain r0 r1 where rs: "rows scenario_grouped = [r0, r1]"
    and u: "nval r0 ''users'' = Some 100" "nval r1 ''users'' = Some 50"
    using scenario_grouped_users by blast
  have c: "has_col scenario_grouped ''users''"
    by (simp add: has_col_def scenario_grouped_columns)
  have n: "\<forall>r \<in> set (rows scenario_grouped). nval r ''users'' \<noteq> None"
    by (simp add: rs u)
  have t: "sum_list (map (\<lambda>r. the (nval r ''users'')) (rows scenario_grouped)) = 150"
    by (simp add: rs u)
  from distribution_sums_to_100 [OF c n] obtain d where
    "calculate_distribution scenario_grouped ''users'' = Inr d" "length d = 2"
    "\<bar>sum_list (map percentage d) - 100\<bar> \<le> 0.005 * real (length d)"
    unfolding Let_def t by (auto simp: rs)
  then show ?thesis using c n by (auto simp: list_all_iff)
qed

theorem distribution_percentage_range_witness:
  "list_all (\<lambda>r. \<exists>v. nval r ''users'' = Some v \<and> 0 \<le> v) (rows scenario_grouped) \<and>
   (\<exists>d. calculate_distribution scenario_grouped ''users'' = Inr d \<and> length d = 2 \<and>
        (\<forall>s \<in> set d. 0 \<le> percentage s \<and> percentage s \<le> 100))"
proof -
  obtain r0 r1 where rs: "rows scenario_grouped = [r0, r1]"
    and u: "nval r0 ''users'' = Some 100" "nval r1 ''users'' = Some 50"
    using scenario_grouped_users by blast
  have n: "\<forall>r \<in> set (rows scenario_grouped). \<exists>v. nval r ''users'' = Some v \<and> 0 \<le> v"
    by (simp add: rs u)
  have c: "has_col scenario_grouped ''users''"
    by (simp add: has_col_def scenario_grouped_columns)
  have "\<exists>d. calculate_distribution scenario_grouped ''users'' = Inr d \<and> length d = 2"
    using distribution_value [OF c, of ] by (simp add: rs u)
  then show ?thesis
    using n distribution_percentage_range [OF n] by (auto simp: list_all_iff)
qed

subsection \<open>Underperformers\<close>

lemma channel_row_simps [simp]:
  "nval (channel_row name u b) ''bounce_rate'' = Some b"
  "nval (channel_row name u b) ''users'' = Some u"
  "sval (channel_row name u b) ''source'' = name"
  by (simp_all add: channel_row_def mk_row_def)

lemma three_bounce: "col_values three_groups ''bounce_rate'' = [Some 0, Some 10, Some 20]"
  by (simp add: col_values_def three_groups_def)

lemma crowded_bounce: "col_values crowded ''bounce_rate'' =
  [Some 90, Some 91, Some 92, Some 93, Some 94, Some 95,
   Some 0, Some 0, Some 0, Some 0, Some 0, Some 0, Some 0, Some 0, Some 0]"
  by (simp add: col_values_def crowded_def)

lemma three_stats:
  "series_mean [Some 0, Some 10, Some 20] = Some 10"
  "series_std [Some 0, Some 10, Some 20] = Some (sqrt 100)"
  "population_std [Some 0, Some 10, Some 20] = Some (sqrt (200 / 3))"
  by (simp_all add: series_mean_def series_std_def population_std_def present_def Let_def)

lemma crowded_stats:
  "series_mean [Some 90, Some 91, Some 92, Some 93, Some 94, Some 95,
     Some 0, Some 0, Some 0, Some 0, Some 0, Some 0, Some 0, Some 0, Some 0] = Some 37"
  "series_std [Some 90, Some 91, Some 92, Some 93, Some 94, Some 95,
     Some 0, Some 0, Some 0, Some 0, Some 0, Some 0, Some 0, Some 0, Some 0] = Some (sqrt (15410 / 7))"
  "population_std [Some 90, Some 91, Some 92, Some 93, Some 94, Some 95,
     Some 0, Some 0, Some 0, Some 0, Some 0, Some 0, Some 0, Some 0, Some 0] = Some (sqrt (6164 / 3))"
  by (simp_all add: series_mean_def series_std_def population_std_def present_def Let_def)


lemma sqrt_100: "sqrt 100 = 10"
  using real_sqrt_abs [of 10] by simp

lemma sqrt_200_3: "0 \<le> sqrt (200 / 3)" "sqrt (200 / 3) < 10"
  by (simp, rule real_less_lsqrt, simp_all)

lemma sqrt_crowded:
  "0 \<le> sqrt (15410 / 7)" "sqrt (15410 / 7) < 53"
  "0 \<le> sqrt (6164 / 3)" "sqrt (6164 / 3) < 53"
  by (simp, (rule real_less_lsqrt, simp_all)[1], simp, (rule real_less_lsqrt, simp_all)[1])

lemma three_filter:
  assumes "10 \<le> t"
  shows "filter (\<lambda>r. fl_gt (nval r ''bounce_rate'') (Some t)) (rows three_groups) =
           (if t < 20 then [channel_row ''c'' 10 20] else [])"
  using assms by (simp add: three_groups_def fl_gt_def)

lemma crowded_filter:
  assumes "0 \<le> t" "t < 90"
  shows "filter (\<lambda>r. fl_gt (nval r ''bounce_rate'') (Some t)) (rows crowded) =
     [channel_row ''c01'' 150 90, channel_row ''c02'' 140 91, channel_row ''c03'' 130 92,
      channel_row ''c04'' 120 93, channel_row ''c05'' 110 94, channel_row ''c06'' 100 95]"
  using assms by (simp add: crowded_def fl_gt_def)

lemma three_code: "identify_underperformers three_groups = []"
proof -
  have c: "has_col three_groups ''bounce_rate''" by (simp add: has_col_def three_groups_def)
  have t: "fl_add (series_mean (col_values three_groups ''bounce_rate''))
                  (series_std (col_values three_groups ''bounce_rate'')) = Some 20"
    by (simp add: three_bounce three_stats sqrt_100 fl_add_def)
  show ?thesis
    by (simp add: identify_underperformers_def c t Let_def three_filter)
qed

lemma three_spec: "spec_underperformers three_groups = [channel_row ''c'' 10 20]"
proof -
  have c: "has_col three_groups ''bounce_rate''" by (simp add: has_col_def three_groups_def)
  have t: "fl_add (series_mean (col_values three_groups ''bounce_rate''))
                  (population_std (col_values three_groups ''bounce_rate''))
           = Some (10 + sqrt (200 / 3))"
    by (simp add: three_bounce three_stats fl_add_def)
  have f: "filter (\<lambda>r. fl_gt (nval r ''bounce_rate'') (Some (10 + sqrt (200 / 3)))) (rows three_groups)
           = [channel_row ''c'' 10 20]"
    using sqrt_200_3 by (subst three_filter) simp_all
  show ?thesis
    by (simp add: spec_underperformers_def c t Let_def f)
qed

lemma crowded_code:
  "map under_channel (identify_underperformers crowded) = [''c01'', ''c02'', ''c03'', ''c04'', ''c05'']"
proof -
  have c: "has_col crowded ''bounce_rate''" by (simp add: has_col_def crowded_def)
  have t: "fl_add (series_mean (col_values crowded ''bounce_rate''))
                  (series_std (col_values crowded ''bounce_rate''))
           = Some (37 + sqrt (15410 / 7))"
    by (simp add: crowded_bounce crowded_stats fl_add_def)
  have f: "filter (\<lambda>r. fl_gt (nval r ''bounce_rate'') (Some (37 + sqrt (15410 / 7)))) (rows crowded) =
     [channel_row ''c01'' 150 90, channel_row ''c02'' 140 91, channel_row ''c03'' 130 92,
      channel_row ''c04'' 120 93, channel_row ''c05'' 110 94, channel_row ''c06'' 100 95]"
    using sqrt_crowded by (subst crowded_filter) simp_all
  have cols: "columns crowded = [''source'', ''users'', ''bounce_rate'']" by (simp add: crowded_def)
  show ?thesis
    by (simp add: identify_underperformers_def c t Let_def f channel_of_def cols)
qed

lemma crowded_spec:
  "map (\<lambda>r. sval r ''source'') (spec_underperformers crowded) =
     [''c06'', ''c05'', ''c04'', ''c03'', ''c02'']"
proof -
  have c: "has_col crowded ''bounce_rate''" by (simp add: has_col_def crowded_def)
  have t: "fl_add (series_mean (col_values crowded ''bounce_rate''))
                  (population_std (col_values crowded ''bounce_rate''))
           = Some (37 + sqrt (6164 / 3))"
    by (simp add: crowded_bounce crowded_stats fl_add_def)
  have f: "filter (\<lambda>r. fl_gt (nval r ''bounce_rate'') (Some (37 + sqrt (6164 / 3)))) (rows crowded) =
     [channel_row ''c01'' 150 90, channel_row ''c02'' 140 91, channel_row ''c03'' 130 92,
      channel_row ''c04'' 120 93, channel_row ''c05'' 110 94, channel_row ''c06'' 100 95]"
    using sqrt_crowded by (subst crowded_filter) simp_all
  show ?thesis
    by (simp add: spec_underperformers_def c t Let_def f key_ge_def)
qed

text \<open>
  Claim C3 as stated fails twice. With bounce rates 0, 10, 20 the group at 20 exceeds
  the mean plus the population deviation (about 18.2) and the specification's list
  holds it, while the code, whose deviation is 10, returns nothing. With six groups
  over the threshold the code keeps the first five in the order of the aggregate list
  (\<open>c01\<close> to \<open>c05\<close>), not the five with the highest bounce rate (\<open>c02\<close> to \<open>c06\<close>).
\<close>

theorem underperformers_counterexample:
  "map under_channel (identify_underperformers three_groups) = [] \<and>
   map (\<lambda>r. sval r ''source'') (spec_underperformers three_groups) = [''c''] \<and>
   map under_channel (identify_underperformers crowded) =
     [''c01'', ''c02'', ''c03'', ''c04'', ''c05''] \<and>
   map (\<lambda>r. sval r ''source'') (spec_underperformers crowded) =
     [''c06'', ''c05'', ''c04'', ''c03'', ''c02'']"
  by (simp add: three_code three_spec crowded_code crowded_spec)


lemma underperformers_value:
  assumes c: "has_col g ''bounce_rate''" and n: "\<forall>r \<in> set (rows g). nval r ''bounce_rate'' \<noteq> None"
  shows "identify_underperformers g =
     (let bs = map (\<lambda>r. the (nval r ''bounce_rate'')) (rows g);
          n = length bs;
          m = sum_list bs / real n;
          s = sqrt (sum_list (map (\<lambda>b. (b - m)\<^sup>2) bs) / real (n - 1))
      in map (\<lambda>r. \<lparr> under_channel = channel_of (columns g) r, issue = ''High bounce rate'',
                       under_bounce_rate = fl_round2 (nval r ''bounce_rate'') \<rparr>)
             (take 5 (filter (\<lambda>r. 2 \<le> n \<and> the (nval r ''bounce_rate'') > m + s) (rows g))))"
proof -
  let ?bs = "map (\<lambda>r. the (nval r ''bounce_rate'')) (rows g)"
  let ?n = "length ?bs"
  let ?m = "sum_list ?bs / real ?n"
  let ?s = "sqrt (sum_list (map (\<lambda>b. (b - ?m)\<^sup>2) ?bs) / real (?n - 1))"
  let ?vs = "col_values g ''bounce_rate''"
  have p: "present ?vs = ?bs"
    using present_all [of ?vs] n by (simp add: col_values_def comp_def)
  have thr: "fl_add (series_mean ?vs) (series_std ?vs) = (if 2 \<le> ?n then Some (?m + ?s) else None)"
    by (auto simp: series_mean_def series_std_def p Let_def fl_add_def)
  have flt: "filter (\<lambda>r. fl_gt (nval r ''bounce_rate'') (fl_add (series_mean ?vs) (series_std ?vs))) (rows g)
           = filter (\<lambda>r. 2 \<le> ?n \<and> the (nval r ''bounce_rate'') > ?m + ?s) (rows g)"
    unfolding thr using n by (intro filter_cong) (auto simp: fl_gt_def)
  show ?thesis
    unfolding identify_underperformers_def Let_def flt using c by (simp add: take_map)
qed

text \<open>
  Claim C3, as the code has it. Without a \<open>bounce_rate\<close> column the list is empty; it
  never has more than 5 entries. With the column (its values numbers, as group means
  are), the list is made of the first five groups, in the order of the aggregate list,
  whose bounce rate exceeds the mean plus the sample standard deviation (divisor
  \<open>n - 1\<close>) of the groups' bounce rates; with fewer than two groups the deviation
  is undefined and the list is empty. Each entry carries the group's bounce rate
  rounded to 2 decimals.
\<close>

theorem underperformers_first_five:
  "(\<not> has_col g ''bounce_rate'' \<longrightarrow> identify_underperformers g = []) \<and>
   length (identify_underperformers g) \<le> 5 \<and>
   (has_col g ''bounce_rate'' \<and> (\<forall>r \<in> set (rows g). nval r ''bounce_rate'' \<noteq> None) \<longrightarrow>
      (let bs = map (\<lambda>r. the (nval r ''bounce_rate'')) (rows g);
           n = length bs;
           m = sum_list bs / real n;
           s = sqrt (sum_list (map (\<lambda>b. (b - m)\<^sup>2) bs) / real (n - 1));
           high = filter (\<lambda>r. 2 \<le> n \<and> the (nval r ''bounce_rate'') > m + s) (rows g)
       in map under_channel (identify_underperformers g) =
            map (channel_of (columns g)) (take 5 high) \<and>
          map under_bounce_rate (identify_underperformers g) =
            map (\<lambda>r. Some (round2 (the (nval r ''bounce_rate'')))) (take 5 high)))"
proof (intro conjI impI)
  show "identify_underperformers g = []" if "\<not> has_col g ''bounce_rate''"
    using that by (simp add: identify_underperformers_def)
  show "length (identify_underperformers g) \<le> 5"
    by (simp add: identify_underperformers_def Let_def)
next
  assume h: "has_col g ''bounce_rate'' \<and> (\<forall>r \<in> set (rows g). nval r ''bounce_rate'' \<noteq> None)"
  then have c: "has_col g ''bounce_rate''"
    and n: "\<forall>r \<in> set (rows g). nval r ''bounce_rate'' \<noteq> None" by simp_all
  have r2: "fl_round2 (nval r ''bounce_rate'') = Some (round2 (the (nval r ''bounce_rate'')))"
    if "r \<in> set (rows g)" for r
    using n that by (auto simp: fl_round2_def)
  show "let bs = map (\<lambda>r. the (nval r ''bounce_rate'')) (rows g);
           n = length bs;
           m = sum_list bs / real n;
           s = sqrt (sum_list (map (\<lambda>b. (b - m)\<^sup>2) bs) / real (n - 1));
           high = filter (\<lambda>r. 2 \<le> n \<and> the (nval r ''bounce_rate'') > m + s) (rows g)
       in map under_channel (identify_underperformers g) =
            map (channel_of (columns g)) (take 5 high) \<and>
          map under_bounce_rate (identify_underperformers g) =
            map (\<lambda>r. Some (round2 (the (nval r ''bounce_rate'')))) (take 5 high)"
    unfolding underperformers_value [OF c n] Let_def
    by (auto simp: comp_def intro!: r2 dest: in_set_takeD)
qed

theorem underperformers_first_five_witness:
  "has_col crowded ''bounce_rate'' \<and>
   list_all (\<lambda>r. nval r ''bounce_rate'' \<noteq> None) (rows crowded) \<and>
   length (identify_underperformers crowded) \<le> 5 \<and>
   (let bs = map (\<lambda>r. the (nval r ''bounce_rate'')) (rows crowded);
        n = length bs;
        m = sum_list bs / real n;
        s = sqrt (sum_list (map (\<lambda>b. (b - m)\<^sup>2) bs) / real (n - 1));
        high = filter (\<lambda>r. 2 \<le> n \<and> the (nval r ''bounce_rate'') > m + s) (rows crowded)
    in map under_channel (identify_underperformers crowded) =
         map (channel_of (columns crowded)) (take 5 high))"
proof -
  have c: "has_col crowded ''bounce_rate''" by (simp add: has_col_def crowded_def)
  have n: "\<forall>r \<in> set (rows crowded). nval r ''bounce_rate'' \<noteq> None"
    by (simp add: crowded_def)
  show ?thesis
    using c n underperformers_first_five [of crowded] unfolding Let_def list_all_iff by blast
qed

subsection \<open>The grouped \<open>users\<close> column\<close>

text \<open>
  In every frame that \<open>analyze_source_medium\<close> builds, the \<open>users\<close> column is
  present and each of its values is the sum of a group: a number, and a non-negative
  one when the dataset's \<open>users\<close> values are non-negative. The assumptions made on
  grouped frames for the distribution and the top performers therefore hold for them.
\<close>

lemma present_nonneg:
  "\<forall>v \<in> set vs. \<forall>x. v = Some x \<longrightarrow> 0 \<le> x \<Longrightarrow> \<forall>x \<in> set (present vs). 0 \<le> x"
  by (induction vs) (auto simp: present_def split: option.splits)

lemma series_sum_nonneg:
  "\<forall>v \<in> set vs. \<forall>x. v = Some x \<longrightarrow> 0 \<le> x \<Longrightarrow> 0 \<le> series_sum vs"
  unfolding series_sum_def by (rule sum_list_nonneg) (use present_nonneg in blast)

lemma users_set_column:
  "c \<noteq> ''users'' \<Longrightarrow> r \<in> set (rows (set_column g c f)) \<Longrightarrow>
     \<exists>r0 \<in> set (rows g). nval r ''users'' = nval r0 ''users''"
  by (auto simp: set_column_def)

lemma users_derived:
  assumes "r \<in> set (rows (derived_metrics g))"
  shows "\<exists>r0 \<in> set (rows g). nval r ''users'' = nval r0 ''users''"
  using assms
  by (auto simp: derived_metrics_def add_conversion_rate_def add_sessions_per_user_def
      set_column_def split: if_splits)

lemma grouped_users:
  assumes a: "analyze_source_medium df = Inr (ChannelAnalysis a)"
    and r: "r \<in> set (rows (by_channel a))"
  shows "has_col (by_channel a) ''users'' \<and>
         (\<exists>k. nval r ''users'' =
                Some (series_sum (map (\<lambda>r. nval r ''users'')
                       (filter (\<lambda>r. sval r (the (select_group_col df)) = k) (rows df)))))"
proof -
  from a obtain gc where k: "select_group_col df = Some gc"
    by (auto simp: analyze_source_medium_def split: option.splits)
  let ?G = "groupby_agg df gc"
  let ?d = "derived_metrics ?G"
  have s: "sort_values_desc ?d ''users'' = Inr (by_channel a)"
    using a k by (rule analyze_source_medium_grouped)
  then have hd: "has_col ?d ''users''"
    by (auto simp: sort_values_desc_def split: if_splits)
  have eq: "by_channel a = ?d\<lparr>rows := foldr (insert_desc ''users'') (rows ?d) []\<rparr>"
    using s by (rule sorted_frame)
  have cols: "columns (by_channel a) = columns ?d" by (subst eq) simp
  have rws: "set (rows (by_channel a)) = set (rows ?d)"
    by (subst eq) (simp add: set_foldr_insert_desc)
  have "''users'' \<in> set (columns ?G)"
    using hd columns_derived [of ?G] by (auto simp: has_col_def)
  then have su: "''users'' \<in> set (sum_cols df)"
    using select_group_col_cases [OF k] by (auto simp: groupby_agg_def mean_cols_def split: if_splits)
  from r rws obtain r0 where r0: "r0 \<in> set (rows ?G)" "nval r ''users'' = nval r0 ''users''"
    using users_derived by blast
  then obtain key where "r0 = group_row df gc key"
    by (auto simp: groupby_agg_def)
  then have "nval r0 ''users'' = Some (series_sum (map (\<lambda>r. nval r ''users'')
                       (filter (\<lambda>r. sval r gc = key) (rows df))))"
    using su by (simp add: group_row_def Let_def)
  then show ?thesis using hd cols r0 k by (auto simp: has_col_def)
qed


lemma pipeline_users_present:
  assumes "analyze_source_medium df = Inr (ChannelAnalysis a)"
  shows "\<forall>r \<in> set (rows (by_channel a)). nval r ''users'' \<noteq> None"
  using grouped_users [OF assms] by fastforce

lemma pipeline_users_nonneg:
  assumes a: "analyze_source_medium df = Inr (ChannelAnalysis a)"
    and inv: "\<forall>r \<in> set (rows df). \<forall>x. nval r ''users'' = Some x \<longrightarrow> 0 \<le> x"
  shows "\<forall>r \<in> set (rows (by_channel a)). \<exists>v. nval r ''users'' = Some v \<and> 0 \<le> v"
proof
  fix r assume "r \<in> set (rows (by_channel a))"
  then obtain k where "nval r ''users'' =
      Some (series_sum (map (\<lambda>r. nval r ''users'')
             (filter (\<lambda>r. sval r (the (select_group_col df)) = k) (rows df))))"
    using grouped_users [OF a] by blast
  moreover have "0 \<le> series_sum (map (\<lambda>r. nval r ''users'')
             (filter (\<lambda>r. sval r (the (select_group_col df)) = k) (rows df)))"
    by (rule series_sum_nonneg) (use inv in auto)
  ultimately show "\<exists>v. nval r ''users'' = Some v \<and> 0 \<le> v" by blast
qed

end
